theory Spec2Isabelle
  imports Complex_Main "HOL-Library.Word"
begin

section \<open>Numbers, vectors and strings\<close>

text \<open>
  The visualizer is TypeScript. A \<^verbatim>\<open>number\<close> is modelled as a \<^typ>\<open>real\<close>: arithmetic is
  exact, and the one place where a double would be infinite or NaN (the division by a zero
  duration) is written out as separate branches. The rounding of IEEE doubles is modelled in the
  section on double-precision arithmetic, which reads the interpolation functions a second time.
  A \<^verbatim>\<open>Vec3\<close> is the triple \<^verbatim>\<open>[number, number, number]\<close>.
\<close>

type_synonym Vec3 = "real \<times> real \<times> real"

definition TAU :: real where
  "TAU = pi * 2"

definition polarToVec3 :: "real \<Rightarrow> real \<Rightarrow> real \<Rightarrow> Vec3" where
  "polarToVec3 r angle y = (cos angle * r, y, sin angle * r)"

definition lerp :: "real \<Rightarrow> real \<Rightarrow> real \<Rightarrow> real" where
  "lerp a b t = a + (b - a) * t"

fun vec3Lerp :: "Vec3 \<Rightarrow> Vec3 \<Rightarrow> real \<Rightarrow> Vec3" where
  "vec3Lerp (a0, a1, a2) (b0, b1, b2) t = (lerp a0 b0 t, lerp a1 b1 t, lerp a2 b2 t)"

definition bezier3 :: "Vec3 \<Rightarrow> Vec3 \<Rightarrow> Vec3 \<Rightarrow> Vec3 \<Rightarrow> real \<Rightarrow> Vec3" where
  "bezier3 a b c d t =
     (let ab = vec3Lerp a b t; bc = vec3Lerp b c t; cd = vec3Lerp c d t;
          abbc = vec3Lerp ab bc t; bccd = vec3Lerp bc cd t
      in vec3Lerp abbc bccd t)"

section \<open>Message transit marker\<close>

text \<open>
  \<^verbatim>\<open>MessageOrb\<close> returns \<^verbatim>\<open>null\<close> (nothing is rendered) or a group placed at the point
  \<^verbatim>\<open>p\<close>. The model keeps the position only. \<open>orbPath\<close> is the part of the component that
  computes \<^verbatim>\<open>p\<close> from the two midpoints; \<open>MessageOrb\<close> is the visibility test in front of
  it. With \<^verbatim>\<open>duration = 0\<close> the quotient is \<^verbatim>\<open>+Infinity\<close> or \<^verbatim>\<open>-Infinity\<close> (both
  fail the test, nothing is rendered) or, at \<^verbatim>\<open>now = bornAt\<close>, \<^verbatim>\<open>NaN\<close>, which passes both
  comparisons and yields a marker at a NaN position.
\<close>

datatype orb = NotRendered | OrbAt Vec3 | OrbNaN

definition orbPath :: "Vec3 \<Rightarrow> Vec3 \<Rightarrow> real \<Rightarrow> real \<Rightarrow> Vec3" where
  "orbPath fromPos toPos height tNorm =
     (case (fromPos, toPos) of
        ((f0, f1, f2), (t0, t1, t2)) \<Rightarrow>
          let mid1 = ((f0 * 2 + t0) / 3, height, (f2 * 2 + t2) / 3);
              mid2 = ((f0 + t0 * 2) / 3, height, (f2 + t2 * 2) / 3)
          in bezier3 fromPos mid1 mid2 toPos tNorm)"

definition MessageOrb :: "Vec3 \<Rightarrow> Vec3 \<Rightarrow> real \<Rightarrow> real \<Rightarrow> real \<Rightarrow> real \<Rightarrow> orb" where
  "MessageOrb fromPos toPos bornAt duration height now =
     (if duration = 0 then (if now = bornAt then OrbNaN else NotRendered)
      else
        let tNorm = (now - bornAt) / duration
        in if tNorm < 0 \<or> tNorm > 1 then NotRendered
           else OrbAt (orbPath fromPos toPos height tNorm))"

text \<open>
  The reference the transit marker is compared with: the cubic Bezier curve in its explicit
  (Bernstein) form, and the two inner control points as the point one third, respectively two
  thirds, of the way along the segment from sender to receiver, lifted to the arc height.
\<close>

fun cubicBezier :: "Vec3 \<Rightarrow> Vec3 \<Rightarrow> Vec3 \<Rightarrow> Vec3 \<Rightarrow> real \<Rightarrow> Vec3" where
  "cubicBezier (a0, a1, a2) (b0, b1, b2) (c0, c1, c2) (d0, d1, d2) t =
     ((1 - t) ^ 3 * a0 + 3 * (1 - t) ^ 2 * t * b0 + 3 * (1 - t) * t ^ 2 * c0 + t ^ 3 * d0,
      (1 - t) ^ 3 * a1 + 3 * (1 - t) ^ 2 * t * b1 + 3 * (1 - t) * t ^ 2 * c1 + t ^ 3 * d1,
      (1 - t) ^ 3 * a2 + 3 * (1 - t) ^ 2 * t * b2 + 3 * (1 - t) * t ^ 2 * c2 + t ^ 3 * d2)"

fun raised :: "real \<Rightarrow> Vec3 \<Rightarrow> Vec3" where
  "raised h (x, y, z) = (x, h, z)"

definition arcMid1 :: "Vec3 \<Rightarrow> Vec3 \<Rightarrow> real \<Rightarrow> Vec3" where
  "arcMid1 fromPos toPos height = raised height (vec3Lerp fromPos toPos (1 / 3))"

definition arcMid2 :: "Vec3 \<Rightarrow> Vec3 \<Rightarrow> real \<Rightarrow> Vec3" where
  "arcMid2 fromPos toPos height = raised height (vec3Lerp fromPos toPos (2 / 3))"

section \<open>Double-precision arithmetic\<close>


definition roundEven :: "real \<Rightarrow> int" where
  "roundEven y =
     (let f = \<lfloor>y\<rfloor>; r = y - of_int f
      in if r < 1 / 2 then f else if 1 / 2 < r then f + 1 else if even f then f else f + 1)"




















section \<open>Strings\<close>

text \<open>
  A JavaScript string is a sequence of UTF-16 code units; \<^verbatim>\<open>length\<close> and
  \<^verbatim>\<open>substring\<close> count code units. \<open>js_str\<close> turns an ASCII literal of the source into
  its code units. A string is falsy exactly when it is empty.
\<close>

type_synonym jsstring = "16 word list"

definition js_str :: "string \<Rightarrow> jsstring" where
  "js_str s = map (\<lambda>c. of_nat (of_char c)) s"

text \<open>
  The decimal numeral a template literal prints for an integer. Turn numbers are integers
  counted by the backend; the model fixes their type to \<^typ>\<open>int\<close>.
\<close>

fun digitsOf :: "nat \<Rightarrow> jsstring" where
  "digitsOf n =
     (if n < 10 then [of_nat (48 + n)]
      else digitsOf (n div 10) @ [of_nat (48 + n mod 10)])"

declare digitsOf.simps [simp del]

definition numberToString :: "int \<Rightarrow> jsstring" where
  "numberToString i = (if i < 0 then js_str ''-'' @ digitsOf (nat (- i)) else digitsOf (nat i))"

section \<open>Conversation data\<close>

record ConversationMessage =
  id_msg :: jsstring
  speaker :: jsstring
  message :: jsstring
  timestamp :: real
  turnNumber :: int

text \<open>
  \<^verbatim>\<open>useCircleLayout\<close> accepts any array of objects with an \<^verbatim>\<open>id\<close>; an \<^verbatim>\<open>Agent\<close> is
  such an object with more fields.
\<close>

record Identified =
  id_agent :: jsstring

record Agent = Identified +
  name :: jsstring
  occupation :: "jsstring option"
  color :: jsstring
  emoji :: jsstring
  isActive :: bool

record ConversationUpdate =
  conversation_id :: jsstring
  speaker :: jsstring
  message :: jsstring
  turn_number :: int
  is_finished :: bool

section \<open>Circular layout\<close>

text \<open>
  The \<^verbatim>\<open>Map\<close> built by \<^verbatim>\<open>useCircleLayout\<close>: \<^verbatim>\<open>forEach\<close> visits the agents in order
  with their index, and \<^verbatim>\<open>map.set\<close> overwrites an earlier entry for the same id.
\<close>

definition useCircleLayout :: "('a Identified_scheme) list \<Rightarrow> real \<Rightarrow> (jsstring \<rightharpoonup> Vec3)" where
  "useCircleLayout agents radius =
     (let n = max (length agents) 1
      in fold (\<lambda>(i, a) m. m(id_agent a \<mapsto> polarToVec3 radius ((real i / real n) * TAU) 0))
           (enumerate 0 agents) Map.empty)"

definition useCircleLayout_default_radius :: real where
  "useCircleLayout_default_radius = 6"

text \<open>
  For the statement of the layout's properties: the point of the ring of radius \<open>r\<close> at the
  angle \<open>2 * pi * i / n\<close> on the ground plane, and the distance of a point from the origin.
\<close>

definition ringPoint :: "real \<Rightarrow> nat \<Rightarrow> nat \<Rightarrow> Vec3" where
  "ringPoint r n i = (r * cos (2 * pi * real i / real n), 0, r * sin (2 * pi * real i / real n))"

fun distOrigin :: "Vec3 \<Rightarrow> real" where
  "distOrigin (x, y, z) = sqrt (x ^ 2 + y ^ 2 + z ^ 2)"

section \<open>Avatar speech bubble\<close>

text \<open>
  \<^verbatim>\<open>currentMessage\<close> is a string or \<^verbatim>\<open>null\<close>. The bubble is rendered only for a truthy
  message (\<^verbatim>\<open>currentMessage && ...\<close>); \<open>bubbleText\<close> is the text shown in it.
\<close>

definition truthy :: "jsstring option \<Rightarrow> bool" where
  "truthy currentMessage = (case currentMessage of None \<Rightarrow> False | Some s \<Rightarrow> s \<noteq> [])"

definition messageLength :: "jsstring option \<Rightarrow> nat" where
  "messageLength currentMessage =
     (case currentMessage of None \<Rightarrow> 0 | Some s \<Rightarrow> if truthy currentMessage then length s else 0)"

definition bubbleWidth :: "jsstring option \<Rightarrow> real" where
  "bubbleWidth currentMessage = min (real (messageLength currentMessage) * 0.06 + 1.6) 5.8"

definition bubbleHeight :: real where
  "bubbleHeight = 1.05"

definition textMaxWidth :: "jsstring option \<Rightarrow> real" where
  "textMaxWidth currentMessage = max (bubbleWidth currentMessage - 0.35) 1.2"

definition bubbleText :: "jsstring option \<Rightarrow> jsstring option" where
  "bubbleText currentMessage =
     (case currentMessage of
        None \<Rightarrow> None
      | Some s \<Rightarrow>
          if s = [] then None
          else Some (if length s > 220 then take 220 s @ js_str ''...'' else s))"

section \<open>Playback clock\<close>

text \<open>
  The hook \<^verbatim>\<open>usePlayback(duration, {autoPlay, speed})\<close> of the scripted replay scene
  (\<^verbatim>\<open>frontend/src/components/ChatInterface.tsx\<close>), the only clock with a duration, a speed and
  play, pause and seek controls. Its
  state is the playing flag, the current time and \<^verbatim>\<open>speedRef.current\<close>, which an effect
  sets to the hook's \<^verbatim>\<open>speed\<close> argument after a render in which it changed. The duration
  is fixed for a scene (it is computed once from the scripted interactions).
\<close>

record Playback =
  playing :: bool
  time :: real
  speedRef :: real

definition usePlayback :: "bool \<Rightarrow> real \<Rightarrow> Playback" where
  "usePlayback autoPlay speed = \<lparr>playing = autoPlay, time = 0, speedRef = speed\<rparr>"

definition frame :: "real \<Rightarrow> real \<Rightarrow> Playback \<Rightarrow> Playback" where
  "frame duration delta p =
     (if \<not> playing p then p
      else
        let next = time p + delta * speedRef p
        in p\<lparr>time := (if next > duration then duration else next)\<rparr>)"

definition play :: "Playback \<Rightarrow> Playback" where
  "play p = p\<lparr>playing := True\<rparr>"

definition pause :: "Playback \<Rightarrow> Playback" where
  "pause p = p\<lparr>playing := False\<rparr>"

definition seek :: "real \<Rightarrow> real \<Rightarrow> Playback \<Rightarrow> Playback" where
  "seek duration t p = p\<lparr>time := max 0 (min duration t)\<rparr>"

definition setSpeed :: "real \<Rightarrow> Playback \<Rightarrow> Playback" where
  "setSpeed s p = p\<lparr>speedRef := s\<rparr>"

text \<open>
  What can happen to the clock: a rendered frame with its delta, the three controls, and a
  change of speed. \<open>run\<close> applies a sequence of them in order.
\<close>

datatype playback_event = Frame real | Play | Pause | Seek real | SetSpeed real

fun step :: "real \<Rightarrow> playback_event \<Rightarrow> Playback \<Rightarrow> Playback" where
  "step duration (Frame delta) p = frame duration delta p"
| "step duration Play p = play p"
| "step duration Pause p = pause p"
| "step duration (Seek t) p = seek duration t p"
| "step duration (SetSpeed s) p = setSpeed s p"

fun run :: "real \<Rightarrow> playback_event list \<Rightarrow> Playback \<Rightarrow> Playback" where
  "run duration [] p = p"
| "run duration (e # es) p = run duration es (step duration e p)"

text \<open>
  The rendering host passes a non-negative frame delta, and the speed selector offers positive
  multipliers only.
\<close>

fun admissible :: "playback_event \<Rightarrow> bool" where
  "admissible (Frame delta) = (0 \<le> delta)"
| "admissible (SetSpeed s) = (0 \<le> s)"
| "admissible _ = True"

text \<open>
  What the clock's speed and playing flag should be after a sequence of events: the speed
  most recently selected, or the hook's \<^verbatim>\<open>speed\<close> argument if none was; the flag the last
  of play and pause set, or \<^verbatim>\<open>autoPlay\<close> if neither occurred.
\<close>

fun selectedSpeed :: "real \<Rightarrow> playback_event list \<Rightarrow> real" where
  "selectedSpeed speed [] = speed"
| "selectedSpeed speed (SetSpeed s # es) = selectedSpeed s es"
| "selectedSpeed speed (e # es) = selectedSpeed speed es"

fun playingAfter :: "bool \<Rightarrow> playback_event list \<Rightarrow> bool" where
  "playingAfter autoPlay [] = autoPlay"
| "playingAfter autoPlay (Play # es) = playingAfter True es"
| "playingAfter autoPlay (Pause # es) = playingAfter False es"
| "playingAfter autoPlay (e # es) = playingAfter autoPlay es"

text \<open>The invariant of the clock: the time is within the scene and the speed is not negative.\<close>

definition clock_ok :: "real \<Rightarrow> Playback \<Rightarrow> bool" where
  "clock_ok duration p = (0 \<le> time p \<and> time p \<le> duration \<and> 0 \<le> speedRef p)"

section \<open>Live scene: frame time and speech bubbles\<close>

text \<open>
  The state of the live \<^verbatim>\<open>Scene\<close>: its frame-time accumulator, the bubble text per speaker
  name, and the host's pending timeouts. The live scene has no playback controls: its frame
  callback, \<open>Scene_frame\<close>, adds the frame delta to \<^verbatim>\<open>currentTime\<close>, and that is the
  \<^verbatim>\<open>now\<close> its transit markers are rendered for. A timeout is kept as the time it is due (in
  milliseconds) and the speaker name its callback has captured. The effect on \<^verbatim>\<open>messages\<close>
  runs after a render in which the message array changed; it has no cleanup function and the
  component never calls \<^verbatim>\<open>clearTimeout\<close>.
\<close>

record SceneState =
  currentTime :: real
  agentMessages :: "jsstring \<rightharpoonup> jsstring"
  timers :: "(nat \<times> jsstring) list"

definition Scene_init :: SceneState where
  "Scene_init = \<lparr>currentTime = 0, agentMessages = Map.empty, timers = []\<rparr>"

definition Scene_frame :: "real \<Rightarrow> SceneState \<Rightarrow> SceneState" where
  "Scene_frame delta st = st\<lparr>currentTime := currentTime st + delta\<rparr>"

text \<open>A sequence of rendered frames of the live scene, each with its delta.\<close>

fun Scene_frames :: "real list \<Rightarrow> SceneState \<Rightarrow> SceneState" where
  "Scene_frames [] st = st"
| "Scene_frames (delta # deltas) st = Scene_frames deltas (Scene_frame delta st)"

definition clearBubble :: "jsstring \<Rightarrow> SceneState \<Rightarrow> SceneState" where
  "clearBubble sp st = st\<lparr>agentMessages := (agentMessages st)(sp := None)\<rparr>"

definition messagesEffect :: "nat \<Rightarrow> ConversationMessage list \<Rightarrow> SceneState \<Rightarrow> SceneState" where
  "messagesEffect clock msgs st =
     (if length msgs > 0 then
        let latestMessage = msgs ! (length msgs - 1)
        in st\<lparr>agentMessages :=
                 (agentMessages st)(ConversationMessage.speaker latestMessage \<mapsto>
                                      ConversationMessage.message latestMessage),
               timers := timers st @ [(clock + 5000, ConversationMessage.speaker latestMessage)]\<rparr>
      else st)"

text \<open>
  The host runs the callbacks of all timeouts that are due, in the order they were set, and
  forgets them.
\<close>

definition runTimers :: "nat \<Rightarrow> SceneState \<Rightarrow> SceneState" where
  "runTimers clock st =
     (fold (\<lambda>(due, sp) s. clearBubble sp s) (filter (\<lambda>(due, sp). due \<le> clock) (timers st)) st)
       \<lparr>timers := filter (\<lambda>(due, sp). \<not> due \<le> clock) (timers st)\<rparr>"

text \<open>
  A sequence of message arrivals, each with the wall-clock time of its effect and the message
  array of that render. Before an arrival is handled the timeouts due by then have run.
\<close>

fun timeline :: "(nat \<times> ConversationMessage list) list \<Rightarrow> SceneState \<Rightarrow> SceneState" where
  "timeline [] st = st"
| "timeline ((clock, msgs) # rest) st = timeline rest (messagesEffect clock msgs (runTimers clock st))"

text \<open>No timeout that would clear the bubble of \<open>sp\<close> is pending.\<close>

definition no_clear_pending :: "jsstring \<Rightarrow> SceneState \<Rightarrow> bool" where
  "no_clear_pending sp st = (sp \<notin> snd ` set (timers st))"

section \<open>Live feed adapter\<close>

datatype ConnectionStatus = connecting | connected | disconnected

record Profile =
  name :: jsstring

record AppState =
  connectionStatus :: ConnectionStatus
  availableProfiles :: "jsstring \<rightharpoonup> Profile"
  isRunning :: bool
  messages :: "ConversationMessage list"
  agents :: "Agent list"

definition AgentAnimation_init :: AppState where
  "AgentAnimation_init =
     \<lparr>connectionStatus = disconnected, availableProfiles = Map.empty, isRunning = False,
      messages = [],
      agents = [\<lparr>id_agent = js_str ''user'', Agent.name = js_str ''You'', occupation = None,
                 color = js_str ''#FBBF24'', emoji = [0xD83E, 0xDDD1], isActive = False\<rparr>]\<rparr>"

text \<open>The socket's lifecycle callbacks.\<close>

definition connectWebSocket :: "AppState \<Rightarrow> AppState" where
  "connectWebSocket st = st\<lparr>connectionStatus := connecting\<rparr>"

definition onopen :: "AppState \<Rightarrow> AppState" where
  "onopen st = st\<lparr>connectionStatus := connected\<rparr>"

definition onclose :: "AppState \<Rightarrow> AppState" where
  "onclose st = st\<lparr>connectionStatus := disconnected\<rparr>"

definition onerror :: "AppState \<Rightarrow> AppState" where
  "onerror st = st\<lparr>connectionStatus := disconnected\<rparr>"

text \<open>
  A parsed socket payload \<^verbatim>\<open>{type, data}\<close> with \<^verbatim>\<open>data\<close> of the declared type
  \<^verbatim>\<open>ConversationUpdate\<close>. \<open>dateNow\<close> is the value of \<^verbatim>\<open>Date.now()\<close> when the handler
  runs.
\<close>

record ws_event =
  type :: jsstring
  data :: ConversationUpdate

definition handleWebSocketMessage :: "real \<Rightarrow> ws_event \<Rightarrow> AppState \<Rightarrow> AppState" where
  "handleWebSocketMessage dateNow d st =
     (if type d = js_str ''conversation_update'' then
        let update = data d
        in if ConversationUpdate.speaker update = js_str ''system'' then
             (if is_finished update then st\<lparr>isRunning := False\<rparr> else st)
           else
             let msg = \<lparr>id_msg = conversation_id update @ js_str ''_'' @
                                  numberToString (turn_number update),
                        ConversationMessage.speaker = ConversationUpdate.speaker update,
                        ConversationMessage.message = ConversationUpdate.message update,
                        timestamp = dateNow / 1000,
                        turnNumber = turn_number update\<rparr>
             in st\<lparr>messages := messages st @ [msg],
                    agents := map (\<lambda>agent. agent\<lparr>isActive :=
                                     (Agent.name agent = ConversationUpdate.speaker update
                                      \<or> Agent.name agent = js_str ''You'')\<rparr>)
                                (agents st)\<rparr>
      else st)"

text \<open>
  The declared types are erased at run time: what the handler receives is whatever
  \<^verbatim>\<open>JSON.parse\<close> returned. \<open>jsval\<close> is a JavaScript value as \<^verbatim>\<open>JSON.parse\<close> builds it
  (an object is the list of its own properties, each name once), with \<open>JUndefined\<close> for the
  result of reading a property that is not there.
\<close>

datatype js_exception = SyntaxError | TypeError

datatype jsval =
  JUndefined | JNull | JBool bool | JNum real | JStr jsstring
  | JArr "jsval list" | JObj "(jsstring \<times> jsval) list"

text \<open>
  Reading a property. \<^verbatim>\<open>undefined\<close> and \<^verbatim>\<open>null\<close> have no properties and the read throws
  \<^verbatim>\<open>TypeError\<close>. An object yields its own property, or \<^verbatim>\<open>undefined\<close>. A boolean, a
  number, a string or an array yields \<^verbatim>\<open>undefined\<close> for a name its prototype does not
  define; the seven names the handler reads (\<^verbatim>\<open>type\<close>, \<^verbatim>\<open>data\<close>, \<^verbatim>\<open>speaker\<close>,
  \<^verbatim>\<open>is_finished\<close>, \<^verbatim>\<open>conversation_id\<close>, \<^verbatim>\<open>turn_number\<close>, \<^verbatim>\<open>message\<close>) are such
  names.
\<close>

fun props :: "jsval \<Rightarrow> jsstring \<Rightarrow> jsval" where
  "props (JObj kvs) k = (case map_of kvs k of None \<Rightarrow> JUndefined | Some v \<Rightarrow> v)"
| "props v k = JUndefined"

definition getProp :: "jsval \<Rightarrow> jsstring \<Rightarrow> js_exception + jsval" where
  "getProp v k = (if v = JUndefined \<or> v = JNull then Inl TypeError else Inr (props v k))"

text \<open>
  Truthiness, and the string a template literal prints for a value. How a number is printed
  is the runtime's business and a parameter here. An array prints its elements separated by
  commas, \<^verbatim>\<open>null\<close> and \<^verbatim>\<open>undefined\<close> elements as nothing.
\<close>

fun truthy_val :: "jsval \<Rightarrow> bool" where
  "truthy_val JUndefined = False"
| "truthy_val JNull = False"
| "truthy_val (JBool b) = b"
| "truthy_val (JNum x) = (x \<noteq> 0)"
| "truthy_val (JStr s) = (s \<noteq> [])"
| "truthy_val (JArr vs) = True"
| "truthy_val (JObj kvs) = True"

fun joinComma :: "jsstring list \<Rightarrow> jsstring" where
  "joinComma [] = []"
| "joinComma [s] = s"
| "joinComma (s # t # rest) = s @ js_str '','' @ joinComma (t # rest)"

fun toStr :: "(real \<Rightarrow> jsstring) \<Rightarrow> jsval \<Rightarrow> jsstring" where
  "toStr numToString JUndefined = js_str ''undefined''"
| "toStr numToString JNull = js_str ''null''"
| "toStr numToString (JBool b) = (if b then js_str ''true'' else js_str ''false'')"
| "toStr numToString (JNum x) = numToString x"
| "toStr numToString (JStr s) = s"
| "toStr numToString (JArr vs) =
     joinComma (map (\<lambda>v. if v = JUndefined \<or> v = JNull then [] else toStr numToString v) vs)"
| "toStr numToString (JObj kvs) = js_str ''[object Object]''"

text \<open>
  The component state as it is at run time: a message record holds whatever values the
  payload had in its fields. The roster, the flag and the status are set from the component's
  own values and keep their types.
\<close>

record AnyMessage =
  id_any :: jsstring
  speaker_any :: jsval
  message_any :: jsval
  timestamp_any :: real
  turnNumber_any :: jsval

record AnyState =
  connectionStatus_any :: ConnectionStatus
  availableProfiles_any :: "jsstring \<rightharpoonup> Profile"
  isRunning_any :: bool
  messages_any :: "AnyMessage list"
  agents_any :: "Agent list"

text \<open>
  \<^verbatim>\<open>handleWebSocketMessage\<close> on an arbitrary parsed value. It stops with the exception of
  the first read that throws; both reads that can throw (\<^verbatim>\<open>data.type\<close> and
  \<^verbatim>\<open>update.speaker\<close>) come before the first state setter, and a value that has been read
  from once can be read from again. The handler validates nothing else.
\<close>

definition handleWebSocketMessage_any ::
  "(real \<Rightarrow> jsstring) \<Rightarrow> real \<Rightarrow> jsval \<Rightarrow> AnyState \<Rightarrow> js_exception + AnyState" where
  "handleWebSocketMessage_any numToString dateNow d st =
     (case getProp d (js_str ''type'') of
        Inl e \<Rightarrow> Inl e
      | Inr ty \<Rightarrow>
          if ty = JStr (js_str ''conversation_update'') then
            (let update = props d (js_str ''data'')
             in case getProp update (js_str ''speaker'') of
                  Inl e \<Rightarrow> Inl e
                | Inr sp \<Rightarrow>
                    if sp = JStr (js_str ''system'') then
                      Inr (if truthy_val (props update (js_str ''is_finished''))
                           then st\<lparr>isRunning_any := False\<rparr> else st)
                    else
                      let msg = \<lparr>id_any =
                                   toStr numToString (props update (js_str ''conversation_id''))
                                   @ js_str ''_''
                                   @ toStr numToString (props update (js_str ''turn_number'')),
                                 speaker_any = sp,
                                 message_any = props update (js_str ''message''),
                                 timestamp_any = dateNow / 1000,
                                 turnNumber_any = props update (js_str ''turn_number'')\<rparr>
                      in Inr (st\<lparr>messages_any := messages_any st @ [msg],
                                 agents_any :=
                                   map (\<lambda>agent. agent\<lparr>isActive :=
                                          (JStr (Agent.name agent) = sp
                                           \<or> Agent.name agent = js_str ''You'')\<rparr>)
                                     (agents_any st)\<rparr>))
          else Inr st)"


text \<open>
  The typed handler above is this one on payloads of the declared type: \<open>encode\<close> is the
  value a well-typed payload parses to, \<open>loosen\<close> the typed state seen at run time.
\<close>

definition encode :: "ws_event \<Rightarrow> jsval" where
  "encode d =
     JObj [(js_str ''type'', JStr (type d)),
           (js_str ''data'',
            JObj [(js_str ''conversation_id'', JStr (conversation_id (data d))),
                  (js_str ''speaker'', JStr (ConversationUpdate.speaker (data d))),
                  (js_str ''message'', JStr (ConversationUpdate.message (data d))),
                  (js_str ''turn_number'', JNum (of_int (turn_number (data d)))),
                  (js_str ''is_finished'', JBool (is_finished (data d)))])]"

definition loosen_message :: "ConversationMessage \<Rightarrow> AnyMessage" where
  "loosen_message m =
     \<lparr>id_any = id_msg m, speaker_any = JStr (ConversationMessage.speaker m),
      message_any = JStr (ConversationMessage.message m), timestamp_any = timestamp m,
      turnNumber_any = JNum (of_int (turnNumber m))\<rparr>"

definition loosen :: "AppState \<Rightarrow> AnyState" where
  "loosen st =
     \<lparr>connectionStatus_any = connectionStatus st, availableProfiles_any = availableProfiles st,
      isRunning_any = isRunning st, messages_any = map loosen_message (messages st),
      agents_any = agents st\<rparr>"

text \<open>
  \<^verbatim>\<open>loadProfiles\<close>, given how its request ended. A failed request is caught and changes
  nothing. The roster always holds the local user first. On an empty roster the source would
  build an object from \<^verbatim>\<open>undefined\<close> that has a name and none of an agent's other fields;
  there is no state of the model for that, and the model stops with \<open>NotAnAgent\<close>.
\<close>

datatype stop = Throws js_exception | NotAnAgent

datatype profiles_response = ProfilesFailed | ProfilesLoaded "jsstring \<rightharpoonup> Profile"

definition loadProfiles :: "profiles_response \<Rightarrow> AppState \<Rightarrow> stop + AppState" where
  "loadProfiles response st =
     (case response of
        ProfilesFailed \<Rightarrow> Inr st
      | ProfilesLoaded profiles \<Rightarrow>
          let st1 = st\<lparr>availableProfiles := profiles\<rparr>;
              myName = (case profiles (js_str ''my_agent'') of
                          None \<Rightarrow> [] | Some p \<Rightarrow> Profile.name p)
          in if myName \<noteq> [] then
               (case agents st of
                  [] \<Rightarrow> Inl NotAnAgent
                | prev0 # rest \<Rightarrow> Inr (st1\<lparr>agents := prev0\<lparr>Agent.name := myName\<rparr> # rest\<rparr>))
             else Inr st1)"

definition stopConversation :: "AppState \<Rightarrow> AppState" where
  "stopConversation st = st\<lparr>isRunning := False\<rparr>"

text \<open>
  The callbacks that can run between two steps of the component, each with what it is given:
  the end of the profile request, the socket's lifecycle, a socket frame whose payload is of
  the declared type, and the stop button. \<open>run_events\<close> runs a sequence of them in order.
\<close>

datatype app_event =
  ProfilesResponse profiles_response | ConnectSocket | SocketOpened | SocketClosed
  | SocketFailed | SocketFrame real ws_event | StopClicked

fun dispatch :: "app_event \<Rightarrow> AppState \<Rightarrow> stop + AppState" where
  "dispatch (ProfilesResponse response) st = loadProfiles response st"
| "dispatch ConnectSocket st = Inr (connectWebSocket st)"
| "dispatch SocketOpened st = Inr (onopen st)"
| "dispatch SocketClosed st = Inr (onclose st)"
| "dispatch SocketFailed st = Inr (onerror st)"
| "dispatch (SocketFrame dateNow d) st = Inr (handleWebSocketMessage dateNow d st)"
| "dispatch StopClicked st = Inr (stopConversation st)"

fun run_events :: "app_event list \<Rightarrow> AppState \<Rightarrow> stop + AppState" where
  "run_events [] st = Inr st"
| "run_events (e # es) st =
     (case dispatch e st of Inl s \<Rightarrow> Inl s | Inr st' \<Rightarrow> run_events es st')"

text \<open>
  \<^verbatim>\<open>startConversation\<close> is asynchronous. \<open>startConversation_begin\<close> is what it does up to
  the \<^verbatim>\<open>await fetch\<close>; \<open>startConversation_settle\<close> is the rest of the \<^verbatim>\<open>try\<close> block and
  its \<^verbatim>\<open>catch\<close>, given how the request ended. While the request is pending other callbacks
  run; \<open>during\<close> is the sequence of them. On an empty roster the source reads
  \<^verbatim>\<open>prev[0].name\<close>, and throws, only when the profile \<^verbatim>\<open>my_agent\<close> has no name to use;
  otherwise it builds an object that is not an agent.
\<close>

datatype fetch_outcome = NetworkFailure | HttpResponse (ok: bool) (json_parses: bool)

definition startConversation_guard :: "AppState \<Rightarrow> bool" where
  "startConversation_guard st = (isRunning st \<or> connectionStatus st \<noteq> connected)"

definition newAgent :: "Profile \<Rightarrow> Agent" where
  "newAgent targetProfile =
     \<lparr>id_agent = js_str ''person_alice'', Agent.name = Profile.name targetProfile,
      occupation = None, color = js_str ''#93C5FD'', emoji = [0xD83E, 0xDD16], isActive = True\<rparr>"

definition startConversation_begin :: "AppState \<Rightarrow> stop + AppState" where
  "startConversation_begin st =
     (let st1 = st\<lparr>isRunning := True, messages := []\<rparr>
      in case availableProfiles st (js_str ''person_alice'') of
           None \<Rightarrow> Inr st1
         | Some targetProfile \<Rightarrow>
             (case agents st of
                [] \<Rightarrow>
                  (case availableProfiles st (js_str ''my_agent'') of
                     None \<Rightarrow> Inl (Throws TypeError)
                   | Some p \<Rightarrow>
                       if Profile.name p \<noteq> [] then Inl NotAnAgent else Inl (Throws TypeError))
              | prev0 # _ \<Rightarrow>
                  Inr (st1\<lparr>agents :=
                    [prev0\<lparr>isActive := True,
                            Agent.name :=
                              (case availableProfiles st (js_str ''my_agent'') of
                                 None \<Rightarrow> Agent.name prev0
                               | Some p \<Rightarrow>
                                   if Profile.name p \<noteq> [] then Profile.name p
                                   else Agent.name prev0)\<rparr>,
                     newAgent targetProfile]\<rparr>)))"

definition request_failed :: "fetch_outcome \<Rightarrow> bool" where
  "request_failed r = (case r of NetworkFailure \<Rightarrow> True | HttpResponse k j \<Rightarrow> \<not> k \<or> \<not> j)"

definition startConversation_settle :: "fetch_outcome \<Rightarrow> AppState \<Rightarrow> AppState" where
  "startConversation_settle r st = (if request_failed r then st\<lparr>isRunning := False\<rparr> else st)"

definition startConversation ::
  "fetch_outcome \<Rightarrow> app_event list \<Rightarrow> AppState \<Rightarrow> stop + AppState" where
  "startConversation r during st =
     (if startConversation_guard st then Inr st
      else case startConversation_begin st of
             Inl s \<Rightarrow> Inl s
           | Inr st1 \<Rightarrow>
               (case run_events during st1 of
                  Inl s \<Rightarrow> Inl s
                | Inr st2 \<Rightarrow> Inr (startConversation_settle r st2)))"

section \<open>Scenarios\<close>

text \<open>Concrete events and states on which the model is run.\<close>

definition update_event :: "string \<Rightarrow> string \<Rightarrow> int \<Rightarrow> bool \<Rightarrow> ws_event" where
  "update_event who text turn finished =
     \<lparr>type = js_str ''conversation_update'',
      data = \<lparr>conversation_id = js_str ''c1'', ConversationUpdate.speaker = js_str who,
              ConversationUpdate.message = js_str text, turn_number = turn,
              is_finished = finished\<rparr>\<rparr>"

definition agent_named :: "string \<Rightarrow> string \<Rightarrow> bool \<Rightarrow> Agent" where
  "agent_named ident who active =
     \<lparr>id_agent = js_str ident, Agent.name = js_str who, occupation = None,
      color = js_str ''#93C5FD'', emoji = [], isActive = active\<rparr>"

definition said :: "string \<Rightarrow> string \<Rightarrow> int \<Rightarrow> ConversationMessage" where
  "said who text turn =
     \<lparr>id_msg = js_str ''c1_'' @ numberToString turn, ConversationMessage.speaker = js_str who,
      ConversationMessage.message = js_str text, timestamp = 10, turnNumber = turn\<rparr>"

text \<open>Alice speaks at time 0 and again three seconds later.\<close>

definition alice_twice :: "(nat \<times> ConversationMessage list) list" where
  "alice_twice =
     [(0, [said ''Alice'' ''hi'' 1]),
      (3000, [said ''Alice'' ''hi'' 1, said ''Alice'' ''again'' 2])]"

text \<open>
  A running conversation between the local user, whose display name the profile of
  \<^verbatim>\<open>my_agent\<close> has set to Bob, and the partner Alice; both are active, as
  \<^verbatim>\<open>startConversation\<close> leaves them.
\<close>

definition alice_and_bob :: AppState where
  "alice_and_bob =
     \<lparr>connectionStatus = connected,
      availableProfiles = [js_str ''my_agent'' \<mapsto> \<lparr>Profile.name = js_str ''Bob''\<rparr>,
                           js_str ''person_alice'' \<mapsto> \<lparr>Profile.name = js_str ''Alice''\<rparr>],
      isRunning = True, messages = [],
      agents = [agent_named ''user'' ''Bob'' True, agent_named ''person_alice'' ''Alice'' True]\<rparr>"

text \<open>
  The local user as the component creates it, with a display name and an activity flag, and
  two loaded profiles.
\<close>

definition local_user :: "string \<Rightarrow> bool \<Rightarrow> Agent" where
  "local_user who active =
     \<lparr>id_agent = js_str ''user'', Agent.name = js_str who, occupation = None,
      color = js_str ''#FBBF24'', emoji = [0xD83E, 0xDDD1], isActive = active\<rparr>"

definition profiles_bob_alice :: "jsstring \<rightharpoonup> Profile" where
  "profiles_bob_alice =
     [js_str ''my_agent'' \<mapsto> \<lparr>Profile.name = js_str ''Bob''\<rparr>,
      js_str ''person_alice'' \<mapsto> \<lparr>Profile.name = js_str ''Alice''\<rparr>]"

text \<open>
  The view after mounting: the profiles have loaded, which renamed the local user to Bob, and
  the socket has opened. No conversation has been started.
\<close>

definition mounting :: "app_event list" where
  "mounting = [ProfilesResponse (ProfilesLoaded profiles_bob_alice), ConnectSocket, SocketOpened]"

definition ready_to_start :: AppState where
  "ready_to_start =
     \<lparr>connectionStatus = connected, availableProfiles = profiles_bob_alice,
      isRunning = False, messages = [], agents = [local_user ''Bob'' False]\<rparr>"

text \<open>The roster of a started conversation: the local user and the partner.\<close>

definition two_agents :: "Agent list" where
  "two_agents = [agent_named ''user'' ''You'' True, agent_named ''person_alice'' ''Alice'' True]"

text \<open>Three seconds of playback at the default speed, after a change to double speed.\<close>

definition replay :: "playback_event list" where
  "replay = [Frame 1, SetSpeed 2, Frame 1, Pause, Frame 1, Play]"






text \<open>Frame deltas of the live scene that add up to seven seconds.\<close>

definition seven_seconds :: "real list" where
  "seven_seconds = [6, 1]"

section \<open>Properties of the geometry\<close>

lemma lerp_cubic:
  "lerp (lerp (lerp a b t) (lerp b c t) t) (lerp (lerp b c t) (lerp c d t) t) t =
     (1 - t) ^ 3 * a + 3 * (1 - t) ^ 2 * t * b + 3 * (1 - t) * t ^ 2 * c + t ^ 3 * d"
  by (simp add: lerp_def power2_eq_square power3_eq_cube algebra_simps)

lemma bezier3_cubicBezier: "bezier3 a b c d t = cubicBezier a b c d t"
proof -
  obtain a0 a1 a2 b0 b1 b2 c0 c1 c2 d0 d1 d2
    where pts: "a = (a0, a1, a2)" "b = (b0, b1, b2)" "c = (c0, c1, c2)" "d = (d0, d1, d2)"
    by (metis prod_cases3)
  show ?thesis
    unfolding pts bezier3_def Let_def vec3Lerp.simps cubicBezier.simps lerp_cubic ..
qed

lemma orbPath_bezier3:
  "orbPath fromPos toPos height tNorm =
     bezier3 fromPos (arcMid1 fromPos toPos height) (arcMid2 fromPos toPos height) toPos tNorm"
proof -
  obtain f0 f1 f2 t0 t1 t2 where pts: "fromPos = (f0, f1, f2)" "toPos = (t0, t1, t2)"
    by (metis prod_cases3)
  have m1: "arcMid1 fromPos toPos height = ((f0 * 2 + t0) / 3, height, (f2 * 2 + t2) / 3)"
    by (simp add: pts arcMid1_def lerp_def field_simps)
  have m2: "arcMid2 fromPos toPos height = ((f0 + t0 * 2) / 3, height, (f2 + t2 * 2) / 3)"
    by (simp add: pts arcMid2_def lerp_def field_simps)
  show ?thesis
    unfolding m1 m2 by (simp add: pts orbPath_def)
qed

lemma MessageOrb_rendered_iff:
  "duration \<noteq> 0 \<Longrightarrow>
     (MessageOrb fromPos toPos bornAt duration height now \<noteq> NotRendered) =
     (0 \<le> (now - bornAt) / duration \<and> (now - bornAt) / duration \<le> 1)"
  by (auto simp add: MessageOrb_def Let_def)

lemma MessageOrb_position:
  "duration \<noteq> 0 \<Longrightarrow> 0 \<le> (now - bornAt) / duration \<Longrightarrow> (now - bornAt) / duration \<le> 1 \<Longrightarrow>
     MessageOrb fromPos toPos bornAt duration height now =
       OrbAt (orbPath fromPos toPos height ((now - bornAt) / duration))"
  by (simp add: MessageOrb_def Let_def not_less)

text \<open>
  Claim C1. For a message emitted at \<open>bornAt\<close> with a positive transit duration, the marker
  is rendered exactly when the normalized progress \<open>(now - bornAt) / duration\<close> lies in
  \<open>[0, 1]\<close>; it is absent before \<open>bornAt\<close> and after \<open>bornAt + duration\<close>; when rendered it
  sits at the cubic Bezier point for that progress over the control points \<open>fromPos\<close>, the
  one-third point raised to the arc height, the two-thirds point raised to the arc height, and
  \<open>toPos\<close>; and at \<open>bornAt + duration / 2\<close> it sits at the Bezier point for progress one half.
\<close>

theorem MessageOrb_transit:
  assumes "0 < duration"
  shows "(MessageOrb fromPos toPos bornAt duration height now \<noteq> NotRendered) =
           (0 \<le> (now - bornAt) / duration \<and> (now - bornAt) / duration \<le> 1)
       \<and> (now < bornAt \<longrightarrow> MessageOrb fromPos toPos bornAt duration height now = NotRendered)
       \<and> (bornAt + duration < now \<longrightarrow>
            MessageOrb fromPos toPos bornAt duration height now = NotRendered)
       \<and> (0 \<le> (now - bornAt) / duration \<and> (now - bornAt) / duration \<le> 1 \<longrightarrow>
            MessageOrb fromPos toPos bornAt duration height now =
              OrbAt (cubicBezier fromPos (arcMid1 fromPos toPos height)
                       (arcMid2 fromPos toPos height) toPos ((now - bornAt) / duration)))
       \<and> MessageOrb fromPos toPos bornAt duration height (bornAt + duration / 2) =
            OrbAt (cubicBezier fromPos (arcMid1 fromPos toPos height)
                     (arcMid2 fromPos toPos height) toPos (1 / 2))"
proof -
  from assms have nz: "duration \<noteq> 0" by simp
  have iff: "(MessageOrb fromPos toPos bornAt duration height now \<noteq> NotRendered) =
           (0 \<le> (now - bornAt) / duration \<and> (now - bornAt) / duration \<le> 1)"
    by (rule MessageOrb_rendered_iff [OF nz])
  have before: "now < bornAt \<longrightarrow> MessageOrb fromPos toPos bornAt duration height now = NotRendered"
  proof
    assume "now < bornAt"
    with assms have "(now - bornAt) / duration < 0"
      by (simp add: divide_neg_pos)
    with iff show "MessageOrb fromPos toPos bornAt duration height now = NotRendered"
      by auto
  qed
  have after: "bornAt + duration < now \<longrightarrow>
      MessageOrb fromPos toPos bornAt duration height now = NotRendered"
  proof
    assume "bornAt + duration < now"
    with assms have "1 < (now - bornAt) / duration"
      by (simp add: field_simps)
    with iff show "MessageOrb fromPos toPos bornAt duration height now = NotRendered"
      by auto
  qed
  have pos: "0 \<le> (now - bornAt) / duration \<and> (now - bornAt) / duration \<le> 1 \<longrightarrow>
      MessageOrb fromPos toPos bornAt duration height now =
        OrbAt (cubicBezier fromPos (arcMid1 fromPos toPos height)
                 (arcMid2 fromPos toPos height) toPos ((now - bornAt) / duration))"
    by (simp add: MessageOrb_position [OF nz] orbPath_bezier3 bezier3_cubicBezier)
  have half: "(bornAt + duration / 2 - bornAt) / duration = 1 / 2"
    using nz by simp
  have mid: "MessageOrb fromPos toPos bornAt duration height (bornAt + duration / 2) =
      OrbAt (cubicBezier fromPos (arcMid1 fromPos toPos height)
               (arcMid2 fromPos toPos height) toPos (1 / 2))"
    using MessageOrb_position [OF nz, of "bornAt + duration / 2" bornAt fromPos toPos height]
    unfolding half by (simp add: orbPath_bezier3 bezier3_cubicBezier)
  from iff before after pos mid show ?thesis by blast
qed

theorem MessageOrb_transit_witness:
  "(0::real) < 4
   \<and> MessageOrb (6, 0, 0) (-6, 0, 0) 10 4 (3 / 2) 12 = OrbAt (0, 9 / 8, 0)
   \<and> MessageOrb (6, 0, 0) (-6, 0, 0) 10 4 (3 / 2) 9 = NotRendered
   \<and> MessageOrb (6, 0, 0) (-6, 0, 0) 10 4 (3 / 2) 15 = NotRendered"
proof -
  have d: "(0::real) < 4" by simp
  show ?thesis
    using d MessageOrb_transit [OF d, of "(6, 0, 0)" "(-6, 0, 0)" 10 "3 / 2" 12]
      MessageOrb_transit [OF d, of "(6, 0, 0)" "(-6, 0, 0)" 10 "3 / 2" 9]
      MessageOrb_transit [OF d, of "(6, 0, 0)" "(-6, 0, 0)" 10 "3 / 2" 15]
    by (simp add: arcMid1_def arcMid2_def lerp_def power2_eq_square power3_eq_cube)
qed

section \<open>Properties of the interpolation in double precision\<close>









lemma roundEven_of_int [simp]: "roundEven (of_int n) = n"
  by (simp add: roundEven_def)

lemma powi_pos: "0 < (2::real) powi k"
  by simp






lemma powi_52: "(2::real) powi 52 = 2 ^ 52" by simp
lemma powi_53: "(2::real) powi 53 = 2 ^ 53" by simp























































































section \<open>Properties of the speech bubble\<close>

lemma messageLength_Some: "messageLength (Some s) = length s"
  by (auto simp add: messageLength_def truthy_def)

lemma bubbleWidth_le: "bubbleWidth currentMessage \<le> 5.8"
  unfolding bubbleWidth_def by (rule min.cobounded2)

text \<open>
  Claim C7. For a message text of any length the bubble width is
  \<open>min (0.06 * length + 1.6) 5.8\<close>, so it never exceeds 5.8; a text longer than 220 code units
  is shown as its first 220 code units followed by three dots, and a non-empty text of at most
  220 code units is shown in full. For the empty text, as for no message, no bubble is rendered.
\<close>

theorem bubble_bounded:
  "bubbleWidth (Some s) = min (0.06 * real (length s) + 1.6) 5.8
   \<and> bubbleWidth None = 1.6
   \<and> bubbleWidth currentMessage \<le> 5.8
   \<and> (length s > 220 \<longrightarrow> bubbleText (Some s) = Some (take 220 s @ js_str ''...''))
   \<and> (s \<noteq> [] \<and> length s \<le> 220 \<longrightarrow> bubbleText (Some s) = Some s)
   \<and> bubbleText (Some []) = None \<and> bubbleText None = None"
proof -
  have w: "bubbleWidth (Some s) = min (0.06 * real (length s) + 1.6) 5.8"
    by (simp add: bubbleWidth_def messageLength_Some mult.commute)
  have n: "bubbleWidth None = 1.6"
    by (simp add: bubbleWidth_def messageLength_def)
  have long: "length s > 220 \<longrightarrow> bubbleText (Some s) = Some (take 220 s @ js_str ''...'')"
    by (auto simp add: bubbleText_def)
  have short: "s \<noteq> [] \<and> length s \<le> 220 \<longrightarrow> bubbleText (Some s) = Some s"
    by (simp add: bubbleText_def)
  have none: "bubbleText (Some []) = None \<and> bubbleText None = None"
    by (simp add: bubbleText_def)
  from w n bubbleWidth_le long short none show ?thesis by blast
qed

theorem bubble_bounded_witness:
  "length (replicate 221 (97 :: 16 word)) > 220
   \<and> bubbleText (Some (replicate 221 97)) = Some (replicate 220 97 @ [46, 46, 46])
   \<and> bubbleWidth (Some (replicate 221 97)) = 5.8
   \<and> js_str ''hi'' \<noteq> [] \<and> length (js_str ''hi'') \<le> 220
   \<and> bubbleText (Some (js_str ''hi'')) = Some [104, 105]
   \<and> bubbleWidth (Some (js_str ''hi'')) = 1.72"
  using bubble_bounded [of "replicate 221 97"] bubble_bounded [of "js_str ''hi''"]
  by (simp add: js_str_def)

section \<open>Properties of the live feed adapter\<close>

lemma handle_system:
  "type d = js_str ''conversation_update'' \<Longrightarrow>
   ConversationUpdate.speaker (data d) = js_str ''system'' \<Longrightarrow>
   handleWebSocketMessage dateNow d st =
     (if is_finished (data d) then st\<lparr>isRunning := False\<rparr> else st)"
  by (simp add: handleWebSocketMessage_def Let_def)

text \<open>
  Claim C8. A conversation update whose speaker is \<open>system\<close> and whose \<open>is_finished\<close> is true
  sets the running flag to false and changes nothing else: the message sequence and the roster
  are as before.
\<close>

theorem system_finished_event:
  assumes "type d = js_str ''conversation_update''"
    and "ConversationUpdate.speaker (data d) = js_str ''system''"
    and "is_finished (data d)"
  shows "handleWebSocketMessage dateNow d st = st\<lparr>isRunning := False\<rparr>
       \<and> isRunning (handleWebSocketMessage dateNow d st) = False
       \<and> messages (handleWebSocketMessage dateNow d st) = messages st
       \<and> agents (handleWebSocketMessage dateNow d st) = agents st"
  using assms by (simp add: handle_system)

theorem system_finished_event_witness:
  "type (update_event ''system'' ''done'' 9 True) = js_str ''conversation_update''
   \<and> ConversationUpdate.speaker (data (update_event ''system'' ''done'' 9 True)) = js_str ''system''
   \<and> is_finished (data (update_event ''system'' ''done'' 9 True))
   \<and> isRunning (handleWebSocketMessage 5000 (update_event ''system'' ''done'' 9 True) alice_and_bob) = False
   \<and> messages (handleWebSocketMessage 5000 (update_event ''system'' ''done'' 9 True) alice_and_bob) = []
   \<and> agents (handleWebSocketMessage 5000 (update_event ''system'' ''done'' 9 True) alice_and_bob)
       = [agent_named ''user'' ''Bob'' True, agent_named ''person_alice'' ''Alice'' True]"
proof -
  have t: "type (update_event ''system'' ''done'' 9 True) = js_str ''conversation_update''"
    by (simp add: update_event_def)
  have s: "ConversationUpdate.speaker (data (update_event ''system'' ''done'' 9 True)) = js_str ''system''"
    by (simp add: update_event_def)
  have f: "is_finished (data (update_event ''system'' ''done'' 9 True))"
    by (simp add: update_event_def)
  show ?thesis
    using t s f system_finished_event [OF t s f, of 5000 alice_and_bob]
    by (simp add: alice_and_bob_def)
qed

text \<open>The two branches of the handler for a conversation update, and the ignored types.\<close>

lemma handle_chat:
  "type d = js_str ''conversation_update'' \<Longrightarrow>
   ConversationUpdate.speaker (data d) \<noteq> js_str ''system'' \<Longrightarrow>
   handleWebSocketMessage dateNow d st =
     st\<lparr>messages := messages st @
            [\<lparr>id_msg = conversation_id (data d) @ js_str ''_'' @ numberToString (turn_number (data d)),
              ConversationMessage.speaker = ConversationUpdate.speaker (data d),
              ConversationMessage.message = ConversationUpdate.message (data d),
              timestamp = dateNow / 1000,
              turnNumber = turn_number (data d)\<rparr>],
        agents := map (\<lambda>agent. agent\<lparr>isActive :=
                         (Agent.name agent = ConversationUpdate.speaker (data d)
                          \<or> Agent.name agent = js_str ''You'')\<rparr>)
                    (agents st)\<rparr>"
  by (simp add: handleWebSocketMessage_def Let_def)

lemma handle_other_type:
  "type d \<noteq> js_str ''conversation_update'' \<Longrightarrow> handleWebSocketMessage dateNow d st = st"
  by (simp add: handleWebSocketMessage_def)







lemma handle_any_other_type:
  "d \<noteq> JUndefined \<Longrightarrow> d \<noteq> JNull \<Longrightarrow> props d (js_str ''type'') \<noteq> JStr (js_str ''conversation_update'') \<Longrightarrow>
     handleWebSocketMessage_any numToString dateNow d st = Inr st"
  by (simp add: handleWebSocketMessage_any_def getProp_def)

lemma props_type_object:
  "props d k = JStr s \<Longrightarrow> d \<noteq> JUndefined \<and> d \<noteq> JNull"
  by (cases d) auto


lemma handle_any_chat:
  assumes "props d (js_str ''type'') = JStr (js_str ''conversation_update'')"
    and "props d (js_str ''data'') = update"
    and "update \<noteq> JUndefined" and "update \<noteq> JNull"
    and "props update (js_str ''speaker'') \<noteq> JStr (js_str ''system'')"
  shows "handleWebSocketMessage_any numToString dateNow d st =
     Inr (st\<lparr>messages_any := messages_any st @
                [\<lparr>id_any = toStr numToString (props update (js_str ''conversation_id''))
                            @ js_str ''_''
                            @ toStr numToString (props update (js_str ''turn_number'')),
                  speaker_any = props update (js_str ''speaker''),
                  message_any = props update (js_str ''message''),
                  timestamp_any = dateNow / 1000,
                  turnNumber_any = props update (js_str ''turn_number'')\<rparr>],
              agents_any := map (\<lambda>agent. agent\<lparr>isActive :=
                                   (JStr (Agent.name agent) = props update (js_str ''speaker'')
                                    \<or> Agent.name agent = js_str ''You'')\<rparr>)
                              (agents_any st)\<rparr>)"
  using assms props_type_object [OF assms(1)]
  by (simp add: handleWebSocketMessage_any_def getProp_def Let_def)

lemma handle_any_system:
  assumes "props d (js_str ''type'') = JStr (js_str ''conversation_update'')"
    and "props (props d (js_str ''data'')) (js_str ''speaker'') = JStr (js_str ''system'')"
  shows "handleWebSocketMessage_any numToString dateNow d st =
     Inr (if truthy_val (props (props d (js_str ''data'')) (js_str ''is_finished''))
          then st\<lparr>isRunning_any := False\<rparr> else st)"
  using assms props_type_object [OF assms(1)] props_type_object [OF assms(2)]
  by (simp add: handleWebSocketMessage_any_def getProp_def Let_def)


text \<open>
  On a payload of the declared type the two handlers agree, provided the runtime prints an
  integer as its decimal numeral.
\<close>

lemma props_encode:
  "props (encode d) (js_str ''type'') = JStr (type d)"
  "props (props (encode d) (js_str ''data'')) (js_str ''conversation_id'') = JStr (conversation_id (data d))"
  "props (props (encode d) (js_str ''data'')) (js_str ''speaker'') = JStr (ConversationUpdate.speaker (data d))"
  "props (props (encode d) (js_str ''data'')) (js_str ''message'') = JStr (ConversationUpdate.message (data d))"
  "props (props (encode d) (js_str ''data'')) (js_str ''turn_number'') = JNum (of_int (turn_number (data d)))"
  "props (props (encode d) (js_str ''data'')) (js_str ''is_finished'') = JBool (is_finished (data d))"
  by (simp_all add: encode_def js_str_def)

lemma encode_data_object:
  "props (encode d) (js_str ''data'') \<noteq> JUndefined" "props (encode d) (js_str ''data'') \<noteq> JNull"
  "encode d \<noteq> JUndefined" "encode d \<noteq> JNull"
  by (simp_all add: encode_def js_str_def)

lemma typed_handler_agrees:
  assumes "\<And>n. numToString (of_int n) = numberToString n"
  shows "handleWebSocketMessage_any numToString dateNow (encode d) (loosen st) =
     Inr (loosen (handleWebSocketMessage dateNow d st))"
proof (cases "type d = js_str ''conversation_update''")
  case False
  then have "handleWebSocketMessage_any numToString dateNow (encode d) (loosen st) = Inr (loosen st)"
    by (simp add: handle_any_other_type props_encode encode_data_object)
  with False show ?thesis
    by (simp add: handle_other_type)
next
  case update: True
  then have ty: "props (encode d) (js_str ''type'') = JStr (js_str ''conversation_update'')"
    by (simp add: props_encode)
  show ?thesis
  proof (cases "ConversationUpdate.speaker (data d) = js_str ''system''")
    case True
    then have "props (props (encode d) (js_str ''data'')) (js_str ''speaker'') = JStr (js_str ''system'')"
      by (simp add: props_encode)
    from handle_any_system [OF ty this, of numToString dateNow "loosen st"]
    have "handleWebSocketMessage_any numToString dateNow (encode d) (loosen st) =
        Inr (if is_finished (data d) then (loosen st)\<lparr>isRunning_any := False\<rparr> else loosen st)"
      by (simp add: props_encode)
    then show ?thesis
      using update True by (simp add: handle_system loosen_def)
  next
    case False
    then have sp: "props (props (encode d) (js_str ''data'')) (js_str ''speaker'') \<noteq> JStr (js_str ''system'')"
      by (simp add: props_encode)
    note any = handle_any_chat [OF ty refl encode_data_object(1) encode_data_object(2) sp,
        of numToString dateNow "loosen st"]
    show ?thesis
      unfolding any handle_chat [OF update False]
      by (simp add: props_encode assms loosen_def loosen_message_def)
  qed
qed








text \<open>Every callback keeps a non-empty roster non-empty, and on one it does not stop.\<close>

lemma dispatch_roster:
  assumes "agents st \<noteq> []"
  shows "\<exists>st'. dispatch e st = Inr st' \<and> agents st' \<noteq> []"
proof (cases e)
  case (ProfilesResponse response)
  with assms show ?thesis
    by (cases "agents st")
      (auto simp add: loadProfiles_def Let_def split: profiles_response.splits)
next
  case (SocketFrame dateNow d)
  with assms show ?thesis
    by (simp add: handleWebSocketMessage_def Let_def)
qed (use assms in \<open>simp_all add: connectWebSocket_def onopen_def onclose_def onerror_def
    stopConversation_def\<close>)

lemma run_events_roster:
  "agents st \<noteq> [] \<Longrightarrow> \<exists>st'. run_events es st = Inr st' \<and> agents st' \<noteq> []"
proof (induction es arbitrary: st)
  case Nil
  then show ?case by simp
next
  case (Cons e es)
  from dispatch_roster [OF Cons.prems, of e]
  obtain st1 where st1: "dispatch e st = Inr st1" "agents st1 \<noteq> []"
    by blast
  from Cons.IH [OF st1(2)] st1(1) show ?case
    by simp
qed

lemma reachable_roster:
  "run_events es AgentAnimation_init = Inr st \<Longrightarrow> agents st \<noteq> []"
proof -
  have "agents AgentAnimation_init \<noteq> []"
    by (simp add: AgentAnimation_init_def)
  from run_events_roster [OF this, of es] show "run_events es AgentAnimation_init = Inr st \<Longrightarrow> agents st \<noteq> []"
    by auto
qed

lemma startConversation_guarded:
  "startConversation_guard st \<Longrightarrow> startConversation r during st = Inr st"
  by (simp add: startConversation_def)

lemma startConversation_begin_roster:
  assumes "agents st = prev0 # others"
  shows "startConversation_begin st =
     Inr (st\<lparr>isRunning := True, messages := [],
            agents :=
              (case availableProfiles st (js_str ''person_alice'') of
                 None \<Rightarrow> agents st
               | Some targetProfile \<Rightarrow>
                   [prev0\<lparr>isActive := True,
                           Agent.name :=
                             (case availableProfiles st (js_str ''my_agent'') of
                                None \<Rightarrow> Agent.name prev0
                              | Some p \<Rightarrow>
                                  if Profile.name p \<noteq> [] then Profile.name p
                                  else Agent.name prev0)\<rparr>,
                    newAgent targetProfile])\<rparr>)"
  using assms by (simp add: startConversation_begin_def Let_def split: option.splits)

text \<open>
  Claim C5, as \<^verbatim>\<open>startConversation\<close> has it. When the request is issued (the view is
  connected and not running) and fails, by a network failure, a non-success status or an
  unreadable body, the catch block sets the running flag to false and restores nothing else.
  The state after the call is the state the callbacks handled during the request left, with
  the running flag false; and those callbacks started from the state the call set up before
  the request: the message sequence cleared and, when the profile \<open>person_alice\<close> is loaded,
  the roster replaced by the local user, marked active and renamed after the profile
  \<open>my_agent\<close>, followed by the new partner agent. In particular a socket frame handled during
  the request has its effect on that state, and the effect stays.
\<close>

theorem startConversation_failure:
  assumes "request_failed r"
    and "\<not> startConversation_guard st"
    and "agents st = prev0 # others"
  shows "\<exists>st1 st2.
           startConversation_begin st = Inr st1
         \<and> st1 = st\<lparr>isRunning := True, messages := [],
                    agents :=
                      (case availableProfiles st (js_str ''person_alice'') of
                         None \<Rightarrow> agents st
                       | Some targetProfile \<Rightarrow>
                           [prev0\<lparr>isActive := True,
                                   Agent.name :=
                                     (case availableProfiles st (js_str ''my_agent'') of
                                        None \<Rightarrow> Agent.name prev0
                                      | Some p \<Rightarrow>
                                          if Profile.name p \<noteq> [] then Profile.name p
                                          else Agent.name prev0)\<rparr>,
                            newAgent targetProfile])\<rparr>
         \<and> run_events during st1 = Inr st2
         \<and> startConversation r during st = Inr (st2\<lparr>isRunning := False\<rparr>)
         \<and> startConversation r [] st = Inr (st1\<lparr>isRunning := False\<rparr>)
         \<and> (\<forall>dateNow d. startConversation r [SocketFrame dateNow d] st =
                Inr ((handleWebSocketMessage dateNow d st1)\<lparr>isRunning := False\<rparr>))"
proof -
  let ?st1 = "st\<lparr>isRunning := True, messages := [],
                    agents :=
                      (case availableProfiles st (js_str ''person_alice'') of
                         None \<Rightarrow> agents st
                       | Some targetProfile \<Rightarrow>
                           [prev0\<lparr>isActive := True,
                                   Agent.name :=
                                     (case availableProfiles st (js_str ''my_agent'') of
                                        None \<Rightarrow> Agent.name prev0
                                      | Some p \<Rightarrow>
                                          if Profile.name p \<noteq> [] then Profile.name p
                                          else Agent.name prev0)\<rparr>,
                            newAgent targetProfile])\<rparr>"
  have b: "startConversation_begin st = Inr ?st1"
    using assms(3) by (rule startConversation_begin_roster)
  have "agents ?st1 \<noteq> []"
    using assms(3) by (simp split: option.splits)
  from run_events_roster [OF this, of during]
  obtain st2 where st2: "run_events during ?st1 = Inr st2"
    by blast
  have whole: "startConversation r during st = Inr (st2\<lparr>isRunning := False\<rparr>)"
    using assms(1,2) by (simp add: startConversation_def b st2 startConversation_settle_def)
  have none: "startConversation r [] st = Inr (?st1\<lparr>isRunning := False\<rparr>)"
    using assms(1,2) by (simp add: startConversation_def b startConversation_settle_def)
  have frame: "\<forall>dateNow d. startConversation r [SocketFrame dateNow d] st =
      Inr ((handleWebSocketMessage dateNow d ?st1)\<lparr>isRunning := False\<rparr>)"
    using assms(1,2) by (simp add: startConversation_def b startConversation_settle_def)
  from b st2 whole none frame show ?thesis
    by blast
qed

lemma profiles_bob_alice_lookup:
  "profiles_bob_alice (js_str ''my_agent'') = Some \<lparr>Profile.name = js_str ''Bob''\<rparr>"
  "profiles_bob_alice (js_str ''person_alice'') = Some \<lparr>Profile.name = js_str ''Alice''\<rparr>"
  by (simp_all add: profiles_bob_alice_def js_str_def)

lemma Bob_nonempty: "js_str ''Bob'' \<noteq> []"
  by (simp add: js_str_def)

lemma mounting_reaches_ready: "run_events mounting AgentAnimation_init = Inr ready_to_start"
  by (simp add: mounting_def loadProfiles_def profiles_bob_alice_lookup Bob_nonempty Let_def
      AgentAnimation_init_def connectWebSocket_def onopen_def ready_to_start_def local_user_def)

lemma ready_to_start_guard: "\<not> startConversation_guard ready_to_start"
  by (simp add: startConversation_guard_def ready_to_start_def)

lemma ready_to_start_agents: "agents ready_to_start = [local_user ''Bob'' False]"
  by (simp add: ready_to_start_def)

lemma ready_to_start_began:
  "startConversation_begin ready_to_start =
     Inr (ready_to_start\<lparr>isRunning := True,
            agents := [local_user ''Bob'' True, newAgent \<lparr>Profile.name = js_str ''Alice''\<rparr>]\<rparr>)"
  by (simp add: startConversation_begin_roster [OF ready_to_start_agents])
    (simp add: ready_to_start_def profiles_bob_alice_lookup Bob_nonempty local_user_def)

lemma start_fails_from_ready:
  "startConversation NetworkFailure [] ready_to_start =
     Inr (ready_to_start\<lparr>agents := [local_user ''Bob'' True,
                                     newAgent \<lparr>Profile.name = js_str ''Alice''\<rparr>]\<rparr>)"
  by (simp add: startConversation_def ready_to_start_guard ready_to_start_began
      startConversation_settle_def request_failed_def)
    (simp add: ready_to_start_def)

lemma Alice_speaks_to_Bob:
  "map (\<lambda>agent. agent\<lparr>isActive := (Agent.name agent = js_str ''Alice'' \<or> Agent.name agent = js_str ''You'')\<rparr>)
       [local_user ''Bob'' True, newAgent \<lparr>Profile.name = js_str ''Alice''\<rparr>]
     = [local_user ''Bob'' False, newAgent \<lparr>Profile.name = js_str ''Alice''\<rparr>]"
  by (simp add: local_user_def newAgent_def js_str_def)

lemma start_fails_with_frame:
  "startConversation NetworkFailure [SocketFrame 10000 (update_event ''Alice'' ''hi'' 1 False)]
     ready_to_start =
     Inr (ready_to_start\<lparr>messages := [said ''Alice'' ''hi'' 1],
            agents := [local_user ''Bob'' False, newAgent \<lparr>Profile.name = js_str ''Alice''\<rparr>]\<rparr>)"
proof -
  let ?ev = "update_event ''Alice'' ''hi'' 1 False"
  let ?began = "ready_to_start\<lparr>isRunning := True,
            agents := [local_user ''Bob'' True, newAgent \<lparr>Profile.name = js_str ''Alice''\<rparr>]\<rparr>"
  have t: "type ?ev = js_str ''conversation_update''"
    by (simp add: update_event_def)
  have s: "ConversationUpdate.speaker (data ?ev) \<noteq> js_str ''system''"
    by (simp add: update_event_def js_str_def)
  have fields: "ConversationUpdate.speaker (data ?ev) = js_str ''Alice''"
    "ConversationUpdate.message (data ?ev) = js_str ''hi''"
    "conversation_id (data ?ev) = js_str ''c1''" "turn_number (data ?ev) = 1"
    by (simp_all add: update_event_def)
  have m: "messages ?began = []" and a: "agents ?began =
      [local_user ''Bob'' True, newAgent \<lparr>Profile.name = js_str ''Alice''\<rparr>]"
    by (simp_all add: ready_to_start_def)
  have id: "js_str ''c1'' @ js_str ''_'' @ numberToString 1 = js_str ''c1_'' @ numberToString 1"
    by (simp add: js_str_def)
  have "handleWebSocketMessage 10000 ?ev ?began =
      ?began\<lparr>messages := [said ''Alice'' ''hi'' 1],
         agents := [local_user ''Bob'' False, newAgent \<lparr>Profile.name = js_str ''Alice''\<rparr>]\<rparr>"
    unfolding handle_chat [OF t s] fields m a Alice_speaks_to_Bob id
    by (simp add: said_def)
  then show ?thesis
    by (simp add: startConversation_def ready_to_start_guard ready_to_start_began
        startConversation_settle_def request_failed_def)
      (simp add: ready_to_start_def)
qed

theorem startConversation_failure_witness:
  "request_failed NetworkFailure
   \<and> \<not> startConversation_guard ready_to_start
   \<and> agents ready_to_start = local_user ''Bob'' False # []
   \<and> startConversation NetworkFailure [] ready_to_start =
       Inr (ready_to_start\<lparr>agents := [local_user ''Bob'' True,
                                       newAgent \<lparr>Profile.name = js_str ''Alice''\<rparr>]\<rparr>)"
proof -
  have f: "request_failed NetworkFailure"
    by (simp add: request_failed_def)
  from startConversation_failure [OF f ready_to_start_guard ready_to_start_agents, of "[]"]
  obtain st1 where st1: "startConversation_begin ready_to_start = Inr st1"
    and res: "startConversation NetworkFailure [] ready_to_start = Inr (st1\<lparr>isRunning := False\<rparr>)"
    by blast
  from st1 have "st1 = ready_to_start\<lparr>isRunning := True,
      agents := [local_user ''Bob'' True, newAgent \<lparr>Profile.name = js_str ''Alice''\<rparr>]\<rparr>"
    by (simp add: ready_to_start_began)
  then have "st1\<lparr>isRunning := False\<rparr> =
      ready_to_start\<lparr>agents := [local_user ''Bob'' True, newAgent \<lparr>Profile.name = js_str ''Alice''\<rparr>]\<rparr>"
    by (simp add: ready_to_start_def)
  with res f ready_to_start_guard ready_to_start_agents show ?thesis
    by simp
qed

text \<open>
  The view has mounted, the profiles are loaded and the socket is open; the request fails.
  Afterwards the roster holds the partner Alice beside the local user, who is marked active:
  the state is not the one before the call. If the frame of Alice's first line is handled
  while the request is pending, its message is in the sequence afterwards as well.
\<close>

theorem startConversation_no_rollback_counterexample:
  "run_events mounting AgentAnimation_init = Inr ready_to_start
   \<and> request_failed NetworkFailure
   \<and> agents ready_to_start = [local_user ''Bob'' False]
   \<and> messages ready_to_start = []
   \<and> startConversation NetworkFailure [] ready_to_start =
       Inr (ready_to_start\<lparr>agents := [local_user ''Bob'' True,
                                       newAgent \<lparr>Profile.name = js_str ''Alice''\<rparr>]\<rparr>)
   \<and> startConversation NetworkFailure [] ready_to_start \<noteq> Inr ready_to_start
   \<and> startConversation NetworkFailure [SocketFrame 10000 (update_event ''Alice'' ''hi'' 1 False)]
        ready_to_start =
       Inr (ready_to_start\<lparr>messages := [said ''Alice'' ''hi'' 1],
              agents := [local_user ''Bob'' False, newAgent \<lparr>Profile.name = js_str ''Alice''\<rparr>]\<rparr>)"
proof -
  have "ready_to_start\<lparr>agents := [local_user ''Bob'' True,
      newAgent \<lparr>Profile.name = js_str ''Alice''\<rparr>]\<rparr> \<noteq> ready_to_start"
    by (simp add: ready_to_start_def)
  with start_fails_from_ready
  have differs: "startConversation NetworkFailure [] ready_to_start \<noteq> Inr ready_to_start"
    by simp
  have f: "request_failed NetworkFailure"
    by (simp add: request_failed_def)
  have m: "messages ready_to_start = []"
    by (simp add: ready_to_start_def)
  from mounting_reaches_ready f ready_to_start_agents m start_fails_from_ready differs
    start_fails_with_frame
  show ?thesis
    by blast
qed

section \<open>Properties of the playback clock\<close>

lemma clock_ok_init: "0 \<le> duration \<Longrightarrow> 0 \<le> speed \<Longrightarrow> clock_ok duration (usePlayback autoPlay speed)"
  by (simp add: clock_ok_def usePlayback_def)

lemma frame_time:
  "playing p \<Longrightarrow> time (frame duration delta p) = min (time p + delta * speedRef p) duration"
  by (simp add: frame_def Let_def min_def)

lemma frame_paused: "\<not> playing p \<Longrightarrow> frame duration delta p = p"
  by (simp add: frame_def)

lemma frame_playing: "playing (frame duration delta p) = playing p"
  by (simp add: frame_def Let_def)

lemma frame_speedRef: "speedRef (frame duration delta p) = speedRef p"
  by (simp add: frame_def Let_def)

lemma frame_mono:
  assumes "clock_ok duration p" and "0 \<le> delta"
  shows "time p \<le> time (frame duration delta p)"
proof (cases "playing p")
  case True
  from assms have "0 \<le> delta * speedRef p"
    by (simp add: clock_ok_def)
  with assms True show ?thesis
    by (simp add: frame_time clock_ok_def)
next
  case False
  then show ?thesis by (simp add: frame_paused)
qed

lemma frame_ok:
  assumes "clock_ok duration p" and "0 \<le> delta"
  shows "clock_ok duration (frame duration delta p)"
proof (cases "playing p")
  case True
  have "time p \<le> time (frame duration delta p)"
    using assms by (rule frame_mono)
  moreover have "time (frame duration delta p) \<le> duration"
    using True by (simp add: frame_time)
  ultimately show ?thesis
    using assms by (simp add: clock_ok_def frame_speedRef)
next
  case False
  with assms show ?thesis by (simp add: frame_paused)
qed

lemma seek_time: "time (seek duration t p) = max 0 (min duration t)"
  by (simp add: seek_def)

lemma step_ok:
  assumes "0 \<le> duration" and "clock_ok duration p" and "admissible e"
  shows "clock_ok duration (step duration e p)"
proof (cases e)
  case (Frame delta)
  with assms show ?thesis by (simp add: frame_ok)
next
  case Play
  with assms show ?thesis by (simp add: play_def clock_ok_def)
next
  case Pause
  with assms show ?thesis by (simp add: pause_def clock_ok_def)
next
  case (Seek t)
  with assms show ?thesis by (simp add: seek_def clock_ok_def)
next
  case (SetSpeed s)
  with assms show ?thesis by (simp add: setSpeed_def clock_ok_def)
qed

lemma run_ok:
  "0 \<le> duration \<Longrightarrow> clock_ok duration p \<Longrightarrow> list_all admissible es \<Longrightarrow>
     clock_ok duration (run duration es p)"
  by (induction es arbitrary: p) (simp_all add: step_ok)

section \<open>Properties of the live scene\<close>

lemma Scene_frame_time: "currentTime (Scene_frame delta st) = currentTime st + delta"
  by (simp add: Scene_frame_def)


lemma fold_clearBubble:
  "agentMessages (fold (\<lambda>(due, sp) s. clearBubble sp s) ts st) k =
     (if k \<in> snd ` set ts then None else agentMessages st k)"
  by (induction ts arbitrary: st) (auto simp add: clearBubble_def)

lemma runTimers_agentMessages:
  "agentMessages (runTimers clock st) k =
     (if k \<in> snd ` set (filter (\<lambda>(due, sp). due \<le> clock) (timers st)) then None
      else agentMessages st k)"
  by (simp add: runTimers_def fold_clearBubble)

lemma runTimers_timers:
  "timers (runTimers clock st) = filter (\<lambda>(due, sp). \<not> due \<le> clock) (timers st)"
  by (simp add: runTimers_def)

lemma messagesEffect_nonempty:
  "msgs \<noteq> [] \<Longrightarrow>
     messagesEffect clock msgs st =
       st\<lparr>agentMessages := (agentMessages st)(ConversationMessage.speaker (last msgs) \<mapsto>
                                ConversationMessage.message (last msgs)),
          timers := timers st @ [(clock + 5000, ConversationMessage.speaker (last msgs))]\<rparr>"
  by (simp add: messagesEffect_def Let_def last_conv_nth)

lemma messagesEffect_keeps_timers:
  "set (timers st) \<subseteq> set (timers (messagesEffect clock msgs st))"
  by (auto simp add: messagesEffect_def Let_def)

lemma runTimers_keeps_later:
  "(due, sp) \<in> set (timers st) \<Longrightarrow> clock < due \<Longrightarrow> (due, sp) \<in> set (timers (runTimers clock st))"
  by (simp add: runTimers_timers)

lemma timeline_keeps_timer:
  "(due, sp) \<in> set (timers st) \<Longrightarrow> list_all (\<lambda>(t, ms). t < due) later \<Longrightarrow>
     (due, sp) \<in> set (timers (timeline later st))"
proof (induction later arbitrary: st)
  case Nil
  then show ?case by simp
next
  case (Cons e later)
  obtain t ms where e: "e = (t, ms)" by (cases e)
  from Cons.prems e have "t < due" and rest: "list_all (\<lambda>(t, ms). t < due) later"
    by simp_all
  with Cons.prems(1) have "(due, sp) \<in> set (timers (runTimers t st))"
    by (simp add: runTimers_keeps_later)
  with messagesEffect_keeps_timers have "(due, sp) \<in> set (timers (messagesEffect t ms (runTimers t st)))"
    by blast
  with rest show ?case
    by (simp add: e Cons.IH)
qed

lemma due_timer_clears:
  "(due, sp) \<in> set (timers st) \<Longrightarrow> due \<le> clock \<Longrightarrow> agentMessages (runTimers clock st) sp = None"
  by (force simp add: runTimers_agentMessages)

text \<open>
  Claim C3, as the scene has it. The arrival of a message shows the speaker's bubble with its
  text and sets one timeout, due 5000 ms later, that removes that speaker's bubble. A pending
  timeout is never cancelled or replaced: it is still pending after any arrivals before it is
  due, also of newer messages from the same speaker, and when it is due the speaker's bubble
  is removed whatever text it shows. A message is displayed for its full five seconds when no
  clear of its speaker's bubble is pending at its arrival (and nothing arrives in between).
\<close>

theorem bubble_clear_not_cancelled:
  assumes "msgs \<noteq> []"
    and "list_all (\<lambda>(t, ms). t < clock + 5000) later"
  shows "agentMessages (messagesEffect clock msgs st) (ConversationMessage.speaker (last msgs)) =
           Some (ConversationMessage.message (last msgs))
       \<and> timers (messagesEffect clock msgs st) =
           timers st @ [(clock + 5000, ConversationMessage.speaker (last msgs))]
       \<and> (clock + 5000, ConversationMessage.speaker (last msgs))
            \<in> set (timers (timeline later (messagesEffect clock msgs st)))
       \<and> agentMessages (runTimers (clock + 5000) (timeline later (messagesEffect clock msgs st)))
            (ConversationMessage.speaker (last msgs)) = None
       \<and> (no_clear_pending (ConversationMessage.speaker (last msgs)) st \<and> now < clock + 5000 \<longrightarrow>
            agentMessages (runTimers now (messagesEffect clock msgs st))
              (ConversationMessage.speaker (last msgs)) =
            Some (ConversationMessage.message (last msgs)))"
proof -
  let ?sp = "ConversationMessage.speaker (last msgs)"
  let ?st = "messagesEffect clock msgs st"
  have shown: "agentMessages ?st ?sp = Some (ConversationMessage.message (last msgs))"
    by (simp add: messagesEffect_nonempty [OF assms(1)])
  have set: "timers ?st = timers st @ [(clock + 5000, ?sp)]"
    by (simp add: messagesEffect_nonempty [OF assms(1)])
  then have "(clock + 5000, ?sp) \<in> set (timers ?st)"
    by simp
  then have kept: "(clock + 5000, ?sp) \<in> set (timers (timeline later ?st))"
    using assms(2) by (rule timeline_keeps_timer)
  then have cleared: "agentMessages (runTimers (clock + 5000) (timeline later ?st)) ?sp = None"
    by (rule due_timer_clears) simp
  have full: "no_clear_pending ?sp st \<and> now < clock + 5000 \<longrightarrow>
      agentMessages (runTimers now ?st) ?sp = Some (ConversationMessage.message (last msgs))"
  proof
    assume a: "no_clear_pending ?sp st \<and> now < clock + 5000"
    then have "?sp \<notin> snd ` set (filter (\<lambda>(due, sp). due \<le> now) (timers ?st))"
      by (auto simp add: set no_clear_pending_def)
    then show "agentMessages (runTimers now ?st) ?sp = Some (ConversationMessage.message (last msgs))"
      by (simp add: runTimers_agentMessages shown)
  qed
  from shown set kept cleared full show ?thesis
    by blast
qed

lemma Alice_speaker: "ConversationMessage.speaker (said ''Alice'' text turn) = js_str ''Alice''"
  by (simp add: said_def)

lemma alice_twice_timeline:
  "timeline alice_twice Scene_init =
     \<lparr>currentTime = 0, agentMessages = [js_str ''Alice'' \<mapsto> js_str ''again''],
      timers = [(5000, js_str ''Alice''), (8000, js_str ''Alice'')]\<rparr>"
  by (simp add: alice_twice_def Scene_init_def runTimers_def messagesEffect_def said_def)

theorem bubble_clear_not_cancelled_witness:
  "[said ''Alice'' ''hi'' 1] \<noteq> []
   \<and> list_all (\<lambda>(t, ms). t < 0 + 5000) [(3000 :: nat, [said ''Alice'' ''hi'' 1, said ''Alice'' ''again'' 2])]
   \<and> no_clear_pending (js_str ''Alice'') Scene_init \<and> (4000 :: nat) < 0 + 5000
   \<and> agentMessages (runTimers 4000 (messagesEffect 0 [said ''Alice'' ''hi'' 1] Scene_init))
        (js_str ''Alice'') = Some (js_str ''hi'')
   \<and> agentMessages (runTimers (0 + 5000)
        (timeline [(3000, [said ''Alice'' ''hi'' 1, said ''Alice'' ''again'' 2])]
           (messagesEffect 0 [said ''Alice'' ''hi'' 1] Scene_init)))
        (js_str ''Alice'') = None"
proof -
  have ne: "[said ''Alice'' ''hi'' 1] \<noteq> []"
    by simp
  have early: "list_all (\<lambda>(t, ms). t < 0 + 5000)
      [(3000 :: nat, [said ''Alice'' ''hi'' 1, said ''Alice'' ''again'' 2])]"
    by simp
  have none: "no_clear_pending (js_str ''Alice'') Scene_init"
    by (simp add: no_clear_pending_def Scene_init_def)
  note th = bubble_clear_not_cancelled [OF ne early, of Scene_init 4000]
  have sp: "ConversationMessage.speaker (last [said ''Alice'' ''hi'' 1]) = js_str ''Alice''"
    by (simp add: Alice_speaker)
  have tx: "ConversationMessage.message (last [said ''Alice'' ''hi'' 1]) = js_str ''hi''"
    by (simp add: said_def)
  from th none have "agentMessages (runTimers 4000 (messagesEffect 0 [said ''Alice'' ''hi'' 1] Scene_init))
        (js_str ''Alice'') = Some (js_str ''hi'')"
    unfolding sp tx by simp
  moreover from th have "agentMessages (runTimers (0 + 5000)
        (timeline [(3000, [said ''Alice'' ''hi'' 1, said ''Alice'' ''again'' 2])]
           (messagesEffect 0 [said ''Alice'' ''hi'' 1] Scene_init)))
        (js_str ''Alice'') = None"
    unfolding sp by blast
  ultimately show ?thesis
    using ne early none by simp
qed

text \<open>
  Alice speaks at 0 and again at 3000. Just before 5000 her bubble shows the second message;
  at 5000 the timeout set by the first message removes it, two seconds after it appeared, and
  the timeout set by the second message is still pending.
\<close>

theorem newer_bubble_cleared_counterexample:
  "agentMessages (runTimers 4999 (timeline alice_twice Scene_init)) (js_str ''Alice'')
     = Some (js_str ''again'')
   \<and> agentMessages (runTimers 5000 (timeline alice_twice Scene_init)) (js_str ''Alice'') = None
   \<and> timers (timeline alice_twice Scene_init) = [(5000, js_str ''Alice''), (8000, js_str ''Alice'')]"
  by (simp add: alice_twice_timeline runTimers_def clearBubble_def)

section \<open>Properties of the two frame clocks\<close>

lemma speedRef_step:
  "speedRef (step duration e p) = selectedSpeed (speedRef p) [e]"
  by (cases e) (simp_all add: frame_speedRef play_def pause_def seek_def setSpeed_def)

lemma selectedSpeed_Cons:
  "selectedSpeed speed (e # es) = selectedSpeed (selectedSpeed speed [e]) es"
  by (cases e) simp_all

lemma speedRef_run:
  "speedRef (run duration es p) = selectedSpeed (speedRef p) es"
proof (induction es arbitrary: p)
  case Nil
  show ?case by simp
next
  case (Cons e es)
  have "speedRef (run duration (e # es) p) = selectedSpeed (speedRef (step duration e p)) es"
    by (simp add: Cons.IH)
  also have "\<dots> = selectedSpeed (speedRef p) (e # es)"
    by (simp only: speedRef_step selectedSpeed_Cons [symmetric])
  finally show ?case .
qed

lemma playing_step:
  "playing (step duration e p) = playingAfter (playing p) [e]"
  by (cases e) (simp_all add: frame_playing play_def pause_def seek_def setSpeed_def)

lemma playingAfter_Cons:
  "playingAfter autoPlay (e # es) = playingAfter (playingAfter autoPlay [e]) es"
  by (cases e) simp_all

lemma playing_run:
  "playing (run duration es p) = playingAfter (playing p) es"
proof (induction es arbitrary: p)
  case Nil
  show ?case by simp
next
  case (Cons e es)
  have "playing (run duration (e # es) p) = playingAfter (playing (step duration e p)) es"
    by (simp add: Cons.IH)
  also have "\<dots> = playingAfter (playing p) (e # es)"
    by (simp only: playing_step playingAfter_Cons [symmetric])
  finally show ?case .
qed

lemma usePlayback_fields:
  "playing (usePlayback autoPlay speed) = autoPlay"
  "time (usePlayback autoPlay speed) = 0"
  "speedRef (usePlayback autoPlay speed) = speed"
  by (simp_all add: usePlayback_def)

lemma Scene_frames_time:
  "currentTime (Scene_frames deltas st) = currentTime st + sum_list deltas"
  by (induction deltas arbitrary: st) (simp_all add: Scene_frame_time)

lemma Scene_frame_bubbles:
  "agentMessages (Scene_frame delta st) = agentMessages st"
  "timers (Scene_frame delta st) = timers st"
  by (simp_all add: Scene_frame_def)

lemma sum_list_deltas: "list_all (\<lambda>d. 0 \<le> d) deltas \<Longrightarrow> (0::real) \<le> sum_list deltas"
  by (induction deltas) simp_all

text \<open>
  Claim C6, as the two scenes have it. The clock of the live scene starts at 0 and a rendered
  frame adds its delta to it, with no speed, no duration and no clamp: after a sequence of
  frames the time is the sum of their deltas, which is not negative and never decreases when
  the deltas are not negative, and nothing bounds it. The clock of the scripted replay scene
  is the one with a duration: with a non-negative duration and non-negative speeds, after any
  sequence of frames, play, pause, seek and speed changes its time lies between 0 and the
  duration, its speed is the one most recently selected (at first the hook's argument), and a
  frame rendered while playing sets the time to \<open>time + delta * speed\<close> clamped at the
  duration, never decreases it, and leaves the playing flag and the speed as they are; at the
  duration the time stays at the duration. A frame rendered while paused changes nothing,
  and a seek sets the time to its target clamped to the scene.
\<close>

theorem frame_clocks:
  assumes "list_all (\<lambda>d. 0 \<le> d) deltas"
    and "0 \<le> duration" and "0 \<le> speed" and "list_all admissible es" and "0 \<le> delta"
  shows "currentTime (Scene_frames deltas Scene_init) = sum_list deltas
       \<and> 0 \<le> currentTime (Scene_frames deltas Scene_init)
       \<and> currentTime (Scene_frame delta s) = currentTime s + delta
       \<and> currentTime s \<le> currentTime (Scene_frame delta s)
       \<and> agentMessages (Scene_frame delta s) = agentMessages s
       \<and> timers (Scene_frame delta s) = timers s
       \<and> usePlayback autoPlay speed = \<lparr>playing = autoPlay, time = 0, speedRef = speed\<rparr>
       \<and> speedRef (run duration es (usePlayback autoPlay speed)) = selectedSpeed speed es
       \<and> playing (run duration es (usePlayback autoPlay speed)) = playingAfter autoPlay es
       \<and> 0 \<le> time (run duration es (usePlayback autoPlay speed))
       \<and> time (run duration es (usePlayback autoPlay speed)) \<le> duration
       \<and> (playing (run duration es (usePlayback autoPlay speed)) \<longrightarrow>
            time (frame duration delta (run duration es (usePlayback autoPlay speed))) =
              min (time (run duration es (usePlayback autoPlay speed))
                     + delta * selectedSpeed speed es) duration)
       \<and> (\<not> playing (run duration es (usePlayback autoPlay speed)) \<longrightarrow>
            frame duration delta (run duration es (usePlayback autoPlay speed)) =
              run duration es (usePlayback autoPlay speed))
       \<and> time (run duration es (usePlayback autoPlay speed))
            \<le> time (frame duration delta (run duration es (usePlayback autoPlay speed)))
       \<and> time (frame duration delta (run duration es (usePlayback autoPlay speed))) \<le> duration
       \<and> playing (frame duration delta (run duration es (usePlayback autoPlay speed))) =
            playing (run duration es (usePlayback autoPlay speed))
       \<and> speedRef (frame duration delta (run duration es (usePlayback autoPlay speed))) =
            selectedSpeed speed es
       \<and> (time (run duration es (usePlayback autoPlay speed)) = duration \<longrightarrow>
            time (frame duration delta (run duration es (usePlayback autoPlay speed))) = duration)
       \<and> time (seek duration t (run duration es (usePlayback autoPlay speed))) =
            max 0 (min duration t)"
proof -
  let ?p = "run duration es (usePlayback autoPlay speed)"
  have live: "currentTime (Scene_frames deltas Scene_init) = sum_list deltas"
    by (simp add: Scene_frames_time Scene_init_def)
  have live0: "0 \<le> currentTime (Scene_frames deltas Scene_init)"
    using assms(1) by (simp only: live sum_list_deltas)
  have live1: "currentTime (Scene_frame delta s) = currentTime s + delta"
    by (rule Scene_frame_time)
  have live2: "currentTime s \<le> currentTime (Scene_frame delta s)"
    using assms(5) by (simp add: Scene_frame_time)
  have init: "usePlayback autoPlay speed = \<lparr>playing = autoPlay, time = 0, speedRef = speed\<rparr>"
    by (simp add: usePlayback_def)
  have sp: "speedRef ?p = selectedSpeed speed es"
    by (simp add: speedRef_run usePlayback_fields)
  have pl: "playing ?p = playingAfter autoPlay es"
    by (simp add: playing_run usePlayback_fields)
  have ok: "clock_ok duration ?p"
    using assms(2,3,4) by (simp add: run_ok clock_ok_init)
  then have b: "0 \<le> time ?p" "time ?p \<le> duration"
    by (simp_all add: clock_ok_def)
  have f: "playing ?p \<longrightarrow>
      time (frame duration delta ?p) = min (time ?p + delta * selectedSpeed speed es) duration"
    by (simp add: frame_time sp)
  have paused: "\<not> playing ?p \<longrightarrow> frame duration delta ?p = ?p"
    by (simp add: frame_paused)
  have m: "time ?p \<le> time (frame duration delta ?p)"
    using ok assms(5) by (rule frame_mono)
  have u: "time (frame duration delta ?p) \<le> duration"
    using frame_ok [OF ok assms(5)] by (simp add: clock_ok_def)
  have h: "time ?p = duration \<longrightarrow> time (frame duration delta ?p) = duration"
    using m u by simp
  have keep: "playing (frame duration delta ?p) = playing ?p"
    "speedRef (frame duration delta ?p) = selectedSpeed speed es"
    by (simp_all add: frame_playing frame_speedRef sp)
  have sk: "time (seek duration t ?p) = max 0 (min duration t)"
    by (rule seek_time)
  from live live0 live1 live2 init sp pl b f paused m u h keep sk show ?thesis
    by (simp only: Scene_frame_bubbles simp_thms)
qed

lemma replay_run:
  "run 2 replay (usePlayback True 1) = \<lparr>playing = True, time = 2, speedRef = 2\<rparr>"
  by (simp add: replay_def usePlayback_def frame_def setSpeed_def pause_def play_def Let_def)

lemma seven_seconds_live: "currentTime (Scene_frames seven_seconds Scene_init) = 7"
  by (simp add: seven_seconds_def Scene_frame_def Scene_init_def)

theorem frame_clocks_witness:
  "list_all (\<lambda>d. (0::real) \<le> d) seven_seconds
   \<and> (0::real) \<le> 2 \<and> (0::real) \<le> 1 \<and> list_all admissible replay \<and> (0::real) \<le> 1
   \<and> currentTime (Scene_frames seven_seconds Scene_init) = 7
   \<and> speedRef (run 2 replay (usePlayback True 1)) = 2
   \<and> time (run 2 replay (usePlayback True 1)) = 2
   \<and> playing (run 2 replay (usePlayback True 1))
   \<and> time (frame 2 1 (run 2 replay (usePlayback True 1))) = 2
   \<and> playing (frame 2 1 (run 2 replay (usePlayback True 1)))"
proof -
  have l: "list_all (\<lambda>d. (0::real) \<le> d) seven_seconds"
    by (simp add: seven_seconds_def)
  have d: "(0::real) \<le> 2" and s: "(0::real) \<le> 1"
    by simp_all
  have a: "list_all admissible replay"
    by (simp add: replay_def)
  note th = frame_clocks [OF l d s a s, where autoPlay = True and s = Scene_init and t = 0]
  have sum: "sum_list seven_seconds = 7"
    by (simp add: seven_seconds_def)
  from th have "currentTime (Scene_frames seven_seconds Scene_init) = sum_list seven_seconds"
    by blast
  then have live: "currentTime (Scene_frames seven_seconds Scene_init) = 7"
    by (simp only: sum)
  have sel: "selectedSpeed 1 replay = 2"
    by (simp add: replay_def)
  from th have "speedRef (run 2 replay (usePlayback True 1)) = selectedSpeed 1 replay"
    by blast
  then have sp: "speedRef (run 2 replay (usePlayback True 1)) = 2"
    by (simp only: sel)
  have r: "time (run 2 replay (usePlayback True 1)) = 2" "playing (run 2 replay (usePlayback True 1))"
    by (simp_all add: replay_run)
  from th r(1) have t2: "time (frame 2 1 (run 2 replay (usePlayback True 1))) = 2"
    by blast
  from th r(2) have p2: "playing (frame 2 1 (run 2 replay (usePlayback True 1)))"
    by blast
  from l d s a live sp r t2 p2 show ?thesis
    by blast
qed

text \<open>
  Seven seconds of frames. The clock of the live scene stands at 7, past a duration of 6; the
  playback clock of the replay scene, given the same frames and the duration 6, holds at 6.
\<close>

theorem live_clock_unclamped_counterexample:
  "currentTime (Scene_frames seven_seconds Scene_init) = 7
   \<and> \<not> currentTime (Scene_frames seven_seconds Scene_init) \<le> 6
   \<and> time (run 6 [Frame 6, Frame 1] (usePlayback True 1)) = 6"
  by (simp add: seven_seconds_live usePlayback_def frame_def Let_def)

section \<open>Properties of the circular layout\<close>

lemma fold_set_lookup:
  "distinct (map id_agent roster) \<Longrightarrow> j < length roster \<Longrightarrow>
     fold (\<lambda>(i, a) m. m(id_agent a \<mapsto> f i)) (enumerate s roster) m0 (id_agent (roster ! j))
       = Some (f (s + j))"
proof (induction roster rule: rev_induct)
  case Nil
  then show ?case by simp
next
  case (snoc x xs)
  let ?m = "fold (\<lambda>(i, a) m. m(id_agent a \<mapsto> f i)) (enumerate s xs) m0"
  have step: "fold (\<lambda>(i, a) m. m(id_agent a \<mapsto> f i)) (enumerate s (xs @ [x])) m0 =
      ?m(id_agent x \<mapsto> f (s + length xs))"
    by (simp add: enumerate_append_eq)
  show ?case
  proof (cases "j < length xs")
    case True
    then have "xs ! j \<in> set xs"
      by (rule nth_mem)
    then have "id_agent (xs ! j) \<in> id_agent ` set xs"
      by (rule imageI)
    moreover from snoc.prems(1) have "id_agent x \<notin> id_agent ` set xs"
      by simp
    ultimately have "id_agent (xs ! j) \<noteq> id_agent x"
      by metis
    moreover from snoc.prems True have "?m (id_agent (xs ! j)) = Some (f (s + j))"
      by (simp add: snoc.IH)
    ultimately show ?thesis
      using True unfolding step by (simp add: nth_append)
  next
    case False
    with snoc.prems have "j = length xs" by simp
    then show ?thesis unfolding step by simp
  qed
qed

lemma fold_set_dom:
  "dom (fold (\<lambda>(i, a) m. m(id_agent a \<mapsto> f i)) (enumerate s roster) m0)
     = dom m0 \<union> id_agent ` set roster"
  by (induction roster arbitrary: s m0) auto

lemma polarToVec3_ringPoint:
  "polarToVec3 r ((real i / real n) * TAU) 0 = ringPoint r n i"
  by (simp add: polarToVec3_def ringPoint_def TAU_def mult.commute)

lemma useCircleLayout_lookup:
  assumes "distinct (map id_agent roster)" and "i < length roster"
  shows "useCircleLayout roster radius (id_agent (roster ! i)) = Some (ringPoint radius (length roster) i)"
proof -
  from assms(2) have n: "max (length roster) 1 = length roster"
    by simp
  have "fold (\<lambda>(i, a) m. m(id_agent a \<mapsto> polarToVec3 radius ((real i / real (length roster)) * TAU) 0))
      (enumerate 0 roster) Map.empty (id_agent (roster ! i))
      = Some (polarToVec3 radius ((real (0 + i) / real (length roster)) * TAU) 0)"
    using assms by (rule fold_set_lookup)
  then show ?thesis
    unfolding useCircleLayout_def Let_def n by (simp only: add_0 polarToVec3_ringPoint)
qed

lemma useCircleLayout_dom: "dom (useCircleLayout roster radius) = id_agent ` set roster"
  by (simp add: useCircleLayout_def Let_def fold_set_dom)

lemma ringPoint_distOrigin: "distOrigin (ringPoint r n i) = \<bar>r\<bar>"
proof -
  have "(r * cos (2 * pi * real i / real n))\<^sup>2 + (r * sin (2 * pi * real i / real n))\<^sup>2
      = r\<^sup>2 * ((cos (2 * pi * real i / real n))\<^sup>2 + (sin (2 * pi * real i / real n))\<^sup>2)"
    by (simp only: power_mult_distrib distrib_left)
  also have "\<dots> = r\<^sup>2"
    by simp
  finally show ?thesis
    by (simp add: ringPoint_def)
qed

lemma ringPoint_ground: "fst (snd (ringPoint r n i)) = 0"
  by (simp add: ringPoint_def)

lemma ringPoint_inj:
  assumes "r \<noteq> 0" and "i < n" and "j < n" and "ringPoint r n i = ringPoint r n j"
  shows "i = j"
proof -
  from assms(2) have n: "0 < real n" by simp
  from assms(1,4) have "sin (2 * pi * real i / real n) = sin (2 * pi * real j / real n)
      \<and> cos (2 * pi * real i / real n) = cos (2 * pi * real j / real n)"
    by (simp add: ringPoint_def)
  then obtain k :: int where k: "2 * pi * real i / real n = 2 * pi * real j / real n + 2 * pi * real_of_int k"
    unfolding sin_cos_eq_iff by blast
  have "2 * pi * (real i / real n - real j / real n - real_of_int k) = 0"
    using k by (simp add: algebra_simps)
  then have "real i / real n - real j / real n - real_of_int k = 0"
    by simp
  then have "real i / real n = real j / real n + real_of_int k"
    by simp
  with n have "real i = real j + real_of_int k * real n"
    by (simp add: field_simps)
  then have "real_of_int (int i) = real_of_int (int j + k * int n)"
    by simp
  then have e: "int i = int j + k * int n"
    by (simp only: of_int_eq_iff)
  have "k = 0"
  proof (rule ccontr)
    assume "k \<noteq> 0"
    then consider "1 \<le> k" | "k \<le> - 1" by linarith
    then show False
    proof cases
      case 1
      then have "1 * int n \<le> k * int n"
        by (intro mult_right_mono) simp_all
      with e assms(2,3) show False by simp
    next
      case 2
      then have "k * int n \<le> (- 1) * int n"
        by (intro mult_right_mono) simp_all
      with e assms(2,3) show False by simp
    qed
  qed
  with e show ?thesis by simp
qed

lemma useCircleLayout_ran:
  assumes "distinct (map id_agent roster)" and "p \<in> ran (useCircleLayout roster radius)"
  shows "\<exists>i < length roster. p = ringPoint radius (length roster) i"
proof -
  from assms(2) obtain k where k: "useCircleLayout roster radius k = Some p"
    by (auto simp add: ran_def)
  then have "k \<in> dom (useCircleLayout roster radius)"
    by blast
  then have "k \<in> id_agent ` set roster"
    by (simp only: useCircleLayout_dom)
  then obtain i where i: "i < length roster" "k = id_agent (roster ! i)"
    by (auto simp add: in_set_conv_nth)
  with k useCircleLayout_lookup [OF assms(1) i(1), of radius] have "p = ringPoint radius (length roster) i"
    by simp
  with i(1) show ?thesis by blast
qed

text \<open>
  Claim C2. For a roster of agents with distinct identifiers and a positive ring radius, the
  layout maps the agent at index \<open>i\<close> to the point
  \<open>(r * cos (2 * pi * i / N), 0, r * sin (2 * pi * i / N))\<close>; it has exactly one position for
  every agent and for nothing else, the positions of different agents differ, every position
  is on the ground plane at distance \<open>r\<close> from the origin, and the only agent of a
  single-agent roster sits at angle 0.
\<close>

theorem circle_layout:
  assumes "distinct (map id_agent roster)" and "0 < radius"
  shows "(\<forall>i < length roster.
            useCircleLayout roster radius (id_agent (roster ! i)) =
              Some (ringPoint radius (length roster) i))
       \<and> dom (useCircleLayout roster radius) = id_agent ` set roster
       \<and> card (dom (useCircleLayout roster radius)) = length roster
       \<and> (\<forall>i < length roster. \<forall>j < length roster. i \<noteq> j \<longrightarrow>
            useCircleLayout roster radius (id_agent (roster ! i)) \<noteq>
            useCircleLayout roster radius (id_agent (roster ! j)))
       \<and> (\<forall>p \<in> ran (useCircleLayout roster radius). distOrigin p = radius \<and> fst (snd p) = 0)
       \<and> (length roster = 1 \<longrightarrow>
            useCircleLayout roster radius (id_agent (roster ! 0)) = Some (radius, 0, 0))"
proof -
  have at: "\<forall>i < length roster.
      useCircleLayout roster radius (id_agent (roster ! i)) = Some (ringPoint radius (length roster) i)"
    using assms(1) by (simp add: useCircleLayout_lookup)
  have "card (id_agent ` set roster) = card (set (map id_agent roster))"
    by simp
  also have "\<dots> = length roster"
    using assms(1) by (simp only: distinct_card length_map)
  finally have cnt: "card (dom (useCircleLayout roster radius)) = length roster"
    by (simp only: useCircleLayout_dom)
  have apart: "\<forall>i < length roster. \<forall>j < length roster. i \<noteq> j \<longrightarrow>
      useCircleLayout roster radius (id_agent (roster ! i)) \<noteq>
      useCircleLayout roster radius (id_agent (roster ! j))"
  proof (intro allI impI)
    fix i j
    assume i: "i < length roster" and j: "j < length roster" and ne: "i \<noteq> j"
    from assms(2) have "radius \<noteq> 0" by simp
    then have "ringPoint radius (length roster) i \<noteq> ringPoint radius (length roster) j"
      using i j ne ringPoint_inj by blast
    with at i j show "useCircleLayout roster radius (id_agent (roster ! i)) \<noteq>
        useCircleLayout roster radius (id_agent (roster ! j))"
      by simp
  qed
  have ring: "\<forall>p \<in> ran (useCircleLayout roster radius). distOrigin p = radius \<and> fst (snd p) = 0"
  proof
    fix p
    assume "p \<in> ran (useCircleLayout roster radius)"
    with assms(1) obtain i where "p = ringPoint radius (length roster) i"
      using useCircleLayout_ran by blast
    with assms(2) show "distOrigin p = radius \<and> fst (snd p) = 0"
      by (simp add: ringPoint_distOrigin ringPoint_ground)
  qed
  have single: "length roster = 1 \<longrightarrow>
      useCircleLayout roster radius (id_agent (roster ! 0)) = Some (radius, 0, 0)"
  proof
    assume one: "length roster = 1"
    then have "useCircleLayout roster radius (id_agent (roster ! 0)) = Some (ringPoint radius 1 0)"
      using at by simp
    then show "useCircleLayout roster radius (id_agent (roster ! 0)) = Some (radius, 0, 0)"
      by (simp add: ringPoint_def)
  qed
  from at cnt apart ring single show ?thesis
    by (simp only: useCircleLayout_dom simp_thms)
qed

lemma two_agents_ids:
  "distinct (map id_agent two_agents)"
  by (simp add: two_agents_def agent_named_def js_str_def)

theorem circle_layout_witness:
  "distinct (map id_agent two_agents) \<and> (0::real) < 6
   \<and> useCircleLayout two_agents 6 (js_str ''user'') = Some (6, 0, 0)
   \<and> useCircleLayout two_agents 6 (js_str ''person_alice'') = Some (- 6, 0, 0)
   \<and> card (dom (useCircleLayout two_agents 6)) = 2"
proof -
  have r: "(0::real) < 6" by simp
  note th = circle_layout [OF two_agents_ids r]
  have len: "length two_agents = 2"
    by (simp add: two_agents_def)
  have ids: "id_agent (two_agents ! 0) = js_str ''user''"
    "id_agent (two_agents ! 1) = js_str ''person_alice''"
    by (simp_all add: two_agents_def agent_named_def)
  from th len have "useCircleLayout two_agents 6 (id_agent (two_agents ! 0)) = Some (ringPoint 6 2 0)"
    "useCircleLayout two_agents 6 (id_agent (two_agents ! 1)) = Some (ringPoint 6 2 1)"
    by simp_all
  then have "useCircleLayout two_agents 6 (js_str ''user'') = Some (6, 0, 0)"
    "useCircleLayout two_agents 6 (js_str ''person_alice'') = Some (- 6, 0, 0)"
    unfolding ids by (simp_all add: ringPoint_def)
  moreover from th have "card (dom (useCircleLayout two_agents 6)) = length two_agents"
    by blast
  then have "card (dom (useCircleLayout two_agents 6)) = 2"
    by (simp only: len)
  ultimately show ?thesis
    using two_agents_ids r by simp
qed

end
